theory Spec2Isabelle
  imports
    Complex_Main
    "HOL-Library.Char_ord"
    "HOL-Library.List_Lexorder"
    "HOL-Library.Multiset"
    "HOL-Library.Product_Lexorder"
begin

section \<open>Python values\<close>

text \<open>
  A Python float is a binary64 number: one of the special values \<open>inf\<close>, \<open>-inf\<close>,
  \<open>nan\<close>, or a finite number, given by its rational value. Every operation that
  produces a float rounds its exact result with \<open>round64\<close> below, so the finite floats
  that the program computes are the rationals that binary64 represents. The negative
  zero is not told apart from zero (they are equal as floats). \<open>np.nan\<close> is \<open>NaN\<close>.
\<close>

datatype pyfloat = Fin rat | PInf | NInf | NaN

datatype month =
    January | February | March | April | May | June
  | July | August | September | October | November | December

text \<open>A pandas timestamp, as far as the program reads it: the calendar date.\<close>

datatype timestamp = Timestamp (ts_year: int) (ts_month: month) (ts_day: nat)

text \<open>
  The value of one cell of a table: what \<open>pd.read_csv\<close> stores for a cell (a float,
  with \<open>nan\<close> for a missing cell, an integer, a boolean or a string) or what
  \<open>pd.to_datetime\<close> stores (a timestamp or \<open>NaT\<close>).
\<close>

datatype pyval =
    PyFloat pyfloat
  | PyInt int
  | PyBool bool
  | PyStr string
  | PyTimestamp timestamp
  | PyNaT

datatype error = KeyError | ValueError | TypeError | AttributeError

text \<open>\<open>pd.isna\<close> on a scalar.\<close>

definition isna :: "pyval \<Rightarrow> bool" where
  "isna v = (v = PyFloat NaN \<or> v = PyNaT)"

section \<open>Rounding to binary64\<close>

text \<open>
  The finite binary64 numbers are the rationals \<open>m * 2 ^ e\<close> with an integer \<open>m\<close> of
  magnitude below \<open>2 ^ 53\<close> and \<open>- 1074 \<le> e \<le> 971\<close>. A rational is rounded to the
  nearest of them, a tie going to the even \<open>m\<close> (the rounding of IEEE 754 that Python's
  \<open>float\<close> and the arithmetic of numpy use); a result of magnitude \<open>2 ^ 1024\<close> or more
  is \<open>inf\<close> or \<open>-inf\<close>.

  \<open>scale_down\<close> and \<open>scale_up\<close> find the exponent: they write the magnitude as
  \<open>x * 2 ^ e\<close> with \<open>2 ^ 52 \<le> x < 2 ^ 53\<close>, or with \<open>e = - 1074\<close> and \<open>x < 2 ^ 52\<close> for
  a magnitude below the normal range; then \<open>x\<close> is rounded to an integer.
\<close>

definition round_half_even :: "rat \<Rightarrow> int" where
  "round_half_even x =
     (let f = \<lfloor>x\<rfloor>; d = x - of_int f
      in if d < 1 / 2 then f
         else if 1 / 2 < d then f + 1
         else if even f then f else f + 1)"

definition pow2 :: "int \<Rightarrow> rat" where
  "pow2 e = (if e < 0 then 1 / 2 ^ nat (- e) else 2 ^ nat e)"

function scale_down :: "rat \<Rightarrow> int \<Rightarrow> rat \<times> int" where
  "scale_down x e = (if 2 ^ 53 \<le> x then scale_down (x / 2) (e + 1) else (x, e))"
  by pat_completeness auto
termination
proof (relation "measure (\<lambda>(x, e). nat \<lfloor>x\<rfloor>)")
  show "wf (measure (\<lambda>(x, e). nat \<lfloor>x\<rfloor>))" by simp
next
  fix x :: rat and e :: int
  assume a: "2 ^ 53 \<le> x"
  have "(2::rat) \<le> 2 ^ 53" by simp
  with a have x2: "2 \<le> x" by linarith
  then have "x / 2 \<le> x - 1" by simp
  then have "\<lfloor>x / 2\<rfloor> \<le> \<lfloor>x - 1\<rfloor>" by (rule floor_mono)
  moreover have "\<lfloor>x - 1\<rfloor> = \<lfloor>x\<rfloor> - 1" by simp
  moreover have "2 \<le> \<lfloor>x\<rfloor>" using x2 by (simp add: le_floor_iff)
  ultimately show "((x / 2, e + 1), (x, e)) \<in> measure (\<lambda>(x, e). nat \<lfloor>x\<rfloor>)"
    by simp
qed

function scale_up :: "rat \<Rightarrow> int \<Rightarrow> rat \<times> int" where
  "scale_up x e = (if x < 2 ^ 52 \<and> - 1074 < e then scale_up (2 * x) (e - 1) else (x, e))"
  by pat_completeness auto
termination
  by (relation "measure (\<lambda>(x, e). nat (e + 1074))") auto

declare scale_down.simps [simp del] scale_up.simps [simp del]

definition round64 :: "rat \<Rightarrow> pyfloat" where
  "round64 q =
     (if q = 0 then Fin 0
      else (case scale_down \<bar>q\<bar> 0 of
              (x1, e1) \<Rightarrow>
                (case scale_up x1 e1 of
                   (x, e) \<Rightarrow>
                     (let m = of_int (round_half_even x) * pow2 e
                      in if 2 ^ 1024 \<le> m then (if q < 0 then NInf else PInf)
                         else Fin (if q < 0 then - m else m)))))"

section \<open>Strings\<close>

text \<open>
  Strings are lists of characters with code points below 256. \<open>isspace\<close> is Python's
  \<open>str.isspace\<close> on such a character, \<open>strip\<close> is \<open>str.strip()\<close>, \<open>lower\<close> is
  \<open>str.lower()\<close>.
\<close>

definition isspace :: "char \<Rightarrow> bool" where
  "isspace c =
     (let n = (of_char c :: nat)
      in (9 \<le> n \<and> n \<le> 13) \<or> (28 \<le> n \<and> n \<le> 32) \<or> n = 133 \<or> n = 160)"

definition strip :: "string \<Rightarrow> string" where
  "strip s = rev (dropWhile isspace (rev (dropWhile isspace s)))"

definition lower_char :: "char \<Rightarrow> char" where
  "lower_char c =
     (let n = (of_char c :: nat)
      in if (65 \<le> n \<and> n \<le> 90) \<or> (192 \<le> n \<and> n \<le> 222 \<and> n \<noteq> 215)
         then char_of (n + 32) else c)"

definition lower :: "string \<Rightarrow> string" where
  "lower s = map lower_char s"

text \<open>\<open>sub in s\<close> on strings, and \<open>s.endswith(suf)\<close>.\<close>

fun str_contains :: "string \<Rightarrow> string \<Rightarrow> bool" where
  "str_contains sub [] = (sub = [])"
| "str_contains sub (c # cs) = (take (length sub) (c # cs) = sub \<or> str_contains sub cs)"

definition endswith :: "string \<Rightarrow> string \<Rightarrow> bool" where
  "endswith s suf = (length suf \<le> length s \<and> drop (length s - length suf) s = suf)"

text \<open>
  \<open>re.sub(r"\(.*?\)", "", s)\<close>: scanning from the left, an opening parenthesis
  together with everything up to the first closing parenthesis after it is deleted,
  provided no line feed stands in between (\<open>.\<close> does not match a line feed); otherwise
  the character is kept and the scan goes on behind it. \<open>find_close cs\<close> is the text
  behind that closing parenthesis.
\<close>

fun find_close :: "string \<Rightarrow> string option" where
  "find_close [] = None"
| "find_close (c # cs) =
     (if c = CHR '')'' then Some cs
      else if c = CHR 0x0A then None
      else find_close cs)"

function re_sub_parens :: "string \<Rightarrow> string" where
  "re_sub_parens [] = []"
| "re_sub_parens (c # cs) =
     (if c = CHR ''(''
      then (case find_close cs of
              Some rest \<Rightarrow> re_sub_parens rest
            | None \<Rightarrow> c # re_sub_parens cs)
      else c # re_sub_parens cs)"
  by pat_completeness auto
termination
proof (relation "measure length")
  show "wf (measure length)" by simp
next
  fix c :: char and cs rest :: string
  assume "find_close cs = Some rest"
  then have "length rest \<le> length cs"
    by (induction cs) (auto split: if_splits)
  then show "(rest, c # cs) \<in> measure length" by simp
qed auto

text \<open>\<open>s.replace(",", "")\<close>.\<close>

definition remove_commas :: "string \<Rightarrow> string" where
  "remove_commas s = filter (\<lambda>c. c \<noteq> CHR '','') s"

subsection \<open>The built-in \<open>float\<close> on a string\<close>

text \<open>
  \<open>float(s)\<close> reads, between optional surrounding whitespace, an optional sign
  followed by \<open>inf\<close>, \<open>infinity\<close> or \<open>nan\<close> in any letter case, or by a decimal
  number: digits with an optional point (at least one digit before or after it) and
  an optional exponent \<open>e\<close> or \<open>E\<close> with optional sign and at least one digit. A
  single underscore may stand between two digits. Everything else raises
  \<open>ValueError\<close>. The float of a decimal number is the binary64 number nearest to
  it (\<open>inf\<close> when it is too large). (In the program \<open>float\<close> only ever receives a
  string that \<open>strip()\<close> has trimmed.)
\<close>

definition is_digit :: "char \<Rightarrow> bool" where
  "is_digit c = (48 \<le> (of_char c :: nat) \<and> (of_char c :: nat) \<le> 57)"

definition digits_val :: "string \<Rightarrow> nat" where
  "digits_val ds = foldl (\<lambda>n c. 10 * n + ((of_char c :: nat) - 48)) 0 ds"

text \<open>
  The underscore rule: an underscore is allowed only directly after a digit and
  directly before a digit. The result is the text without its underscores.
\<close>

fun strip_underscores :: "char \<Rightarrow> string \<Rightarrow> string option" where
  "strip_underscores prev [] = (if prev = CHR ''_'' then None else Some [])"
| "strip_underscores prev (c # cs) =
     (if c = CHR ''_''
      then (if is_digit prev then strip_underscores c cs else None)
      else if prev = CHR ''_'' \<and> \<not> is_digit c then None
      else map_option ((#) c) (strip_underscores c cs))"

definition split_sign :: "string \<Rightarrow> bool \<times> string" where
  "split_sign s =
     (case s of
        [] \<Rightarrow> (False, [])
      | c # cs \<Rightarrow>
          if c = CHR ''-'' then (True, cs)
          else if c = CHR ''+'' then (False, cs)
          else (False, s))"

text \<open>
  The exponent part behind the digits: nothing (exponent 0), or \<open>e\<close> or \<open>E\<close>, an
  optional sign and at least one digit.
\<close>

definition parse_exponent :: "string \<Rightarrow> int option" where
  "parse_exponent r =
     (case r of
        [] \<Rightarrow> Some 0
      | e # es \<Rightarrow>
          if e = CHR ''e'' \<or> e = CHR ''E''
          then (let (neg, ds) = split_sign es
                in if ds \<noteq> [] \<and> list_all is_digit ds
                   then Some (if neg then - int (digits_val ds) else int (digits_val ds))
                   else None)
          else None)"

definition scale10 :: "rat \<Rightarrow> int \<Rightarrow> rat" where
  "scale10 m ex = (if ex < 0 then m / 10 ^ nat (- ex) else m * 10 ^ nat ex)"

definition parse_decimal :: "string \<Rightarrow> rat option" where
  "parse_decimal s =
     (let ip = takeWhile is_digit s;
          r1 = dropWhile is_digit s;
          (fp, r2) = (case r1 of
                        [] \<Rightarrow> ([], [])
                      | c # cs \<Rightarrow>
                          if c = CHR ''.''
                          then (takeWhile is_digit cs, dropWhile is_digit cs)
                          else ([], r1))
      in if ip = [] \<and> fp = [] then None
         else (case parse_exponent r2 of
                 None \<Rightarrow> None
               | Some ex \<Rightarrow>
                   Some (scale10 ((of_nat (digits_val (ip @ fp)) :: rat) / 10 ^ length fp) ex)))"

definition py_float :: "string \<Rightarrow> error + pyfloat" where
  "py_float s0 =
     (case strip_underscores (CHR 0x00) (strip s0) of
        None \<Rightarrow> Inl ValueError
      | Some s \<Rightarrow>
          (let (neg, body) = split_sign s
           in if lower body = ''inf'' \<or> lower body = ''infinity''
              then Inr (if neg then NInf else PInf)
              else if lower body = ''nan'' then Inr NaN
              else (case parse_decimal body of
                      None \<Rightarrow> Inl ValueError
                    | Some q \<Rightarrow> Inr (round64 (if neg then - q else q)))))"

subsection \<open>The built-in \<open>str\<close>\<close>

function nat_digits :: "nat \<Rightarrow> string" where
  "nat_digits n =
     (if n < 10 then [char_of (48 + n)]
      else nat_digits (n div 10) @ [char_of (48 + n mod 10)])"
  by pat_completeness auto
termination
  by (relation "measure id") auto

definition str_int :: "int \<Rightarrow> string" where
  "str_int n = (if n < 0 then CHR ''-'' # nat_digits (nat (- n)) else nat_digits (nat n))"

definition month_number :: "month \<Rightarrow> nat" where
  "month_number m =
     (case m of
        January \<Rightarrow> 1 | February \<Rightarrow> 2 | March \<Rightarrow> 3 | April \<Rightarrow> 4
      | May \<Rightarrow> 5 | June \<Rightarrow> 6 | July \<Rightarrow> 7 | August \<Rightarrow> 8
      | September \<Rightarrow> 9 | October \<Rightarrow> 10 | November \<Rightarrow> 11 | December \<Rightarrow> 12)"

definition two_digits :: "nat \<Rightarrow> string" where
  "two_digits n = (if n < 10 then CHR ''0'' # nat_digits n else nat_digits n)"

text \<open>
  \<open>str(val)\<close>. The text of a finite float is its \<open>repr\<close>, the shortest decimal text
  that \<open>float\<close> reads back as the same float. The algorithm that finds it is not
  modelled: the function \<open>repr\<close> is a parameter of everything that calls \<open>str\<close>.
\<close>

fun py_str :: "(rat \<Rightarrow> string) \<Rightarrow> pyval \<Rightarrow> string" where
  "py_str repr (PyStr s) = s"
| "py_str repr (PyInt n) = str_int n"
| "py_str repr (PyBool b) = (if b then ''True'' else ''False'')"
| "py_str repr (PyFloat (Fin q)) = repr q"
| "py_str repr (PyFloat PInf) = ''inf''"
| "py_str repr (PyFloat NInf) = ''-inf''"
| "py_str repr (PyFloat NaN) = ''nan''"
| "py_str repr (PyTimestamp t) =
     str_int (ts_year t) @ ''-'' @ two_digits (month_number (ts_month t)) @ ''-''
       @ two_digits (ts_day t) @ '' 00:00:00''"
| "py_str repr PyNaT = ''NaT''"

section \<open>\<open>clean_numeric\<close> (Summative.py, lines 49 to 61)\<close>

definition sentinels :: "string list" where
  "sentinels = ['''', ''N.A.'', ''N.A'', ''NA'', ''n.a.'', ''-'', ''None'']"

definition clean_numeric :: "(rat \<Rightarrow> string) \<Rightarrow> pyval \<Rightarrow> pyfloat" where
  "clean_numeric repr val =
     (if isna val then NaN
      else (let s = strip (py_str repr val)
            in if s \<in> set sentinels then NaN
               else (let s1 = re_sub_parens s;
                         s2 = strip (remove_commas s1)
                     in (case py_float s2 of
                           Inr x \<Rightarrow> x
                         | Inl _ \<Rightarrow> NaN))))"

section \<open>Float arithmetic\<close>

text \<open>
  Addition, subtraction and division by a positive count in binary64: the exact result
  is rounded, and the special values are treated as IEEE 754 treats them (\<open>nan\<close>
  absorbs, \<open>inf - inf\<close> is \<open>nan\<close>).
\<close>

fun fadd :: "pyfloat \<Rightarrow> pyfloat \<Rightarrow> pyfloat" where
  "fadd NaN y = NaN"
| "fadd x NaN = NaN"
| "fadd (Fin a) (Fin b) = round64 (a + b)"
| "fadd PInf NInf = NaN"
| "fadd NInf PInf = NaN"
| "fadd PInf y = PInf"
| "fadd x PInf = PInf"
| "fadd NInf y = NInf"
| "fadd x NInf = NInf"

fun fneg :: "pyfloat \<Rightarrow> pyfloat" where
  "fneg (Fin a) = Fin (- a)"
| "fneg PInf = NInf"
| "fneg NInf = PInf"
| "fneg NaN = NaN"

definition fsub :: "pyfloat \<Rightarrow> pyfloat \<Rightarrow> pyfloat" where
  "fsub x y = fadd x (fneg y)"

fun fdiv_count :: "pyfloat \<Rightarrow> nat \<Rightarrow> pyfloat" where
  "fdiv_count (Fin a) n = round64 (a / of_nat n)"
| "fdiv_count x n = x"

definition fsum :: "pyfloat list \<Rightarrow> pyfloat" where
  "fsum xs = foldl fadd (Fin 0) xs"

text \<open>
  The mean with \<open>skipna=True\<close>: over the values that are not \<open>nan\<close>, their sum (added
  up from the left, starting from 0.0) divided by their number; \<open>nan\<close> if there is
  none.
\<close>

definition nanmean :: "pyfloat list \<Rightarrow> pyfloat" where
  "nanmean fs =
     (let xs = filter (\<lambda>f. f \<noteq> NaN) fs
      in if xs = [] then NaN else fdiv_count (fsum xs) (length xs))"

section \<open>Tables\<close>

text \<open>
  A \<open>DataFrame\<close>: its column labels, in order, and its rows. A row gives the cell
  under each label; only the labels in \<open>columns\<close> are columns of the table. One
  label names one column: a table in which \<open>rename\<close> produces the same label twice
  is not represented.
\<close>

type_synonym row = "string \<Rightarrow> pyval"

record dataframe =
  columns :: "string list"
  rows :: "row list"

definition err_bind :: "error + 'a \<Rightarrow> ('a \<Rightarrow> error + 'b) \<Rightarrow> error + 'b" where
  "err_bind m f = (case m of Inl e \<Rightarrow> Inl e | Inr x \<Rightarrow> f x)"

text \<open>Reading the cell of a row under a label: \<open>KeyError\<close> when the table has no such column.\<close>

definition cell :: "dataframe \<Rightarrow> row \<Rightarrow> string \<Rightarrow> error + pyval" where
  "cell df r c = (if c \<in> set (columns df) then Inr (r c) else Inl KeyError)"

text \<open>A cell as a number, as an arithmetic operation on a column needs it.\<close>

fun cell_float :: "pyval \<Rightarrow> error + pyfloat" where
  "cell_float (PyFloat f) = Inr f"
| "cell_float (PyInt n) = Inr (round64 (of_int n))"
| "cell_float (PyBool b) = Inr (Fin (if b then 1 else 0))"
| "cell_float v = Inl TypeError"

fun map_rows :: "(row \<Rightarrow> error + row) \<Rightarrow> row list \<Rightarrow> error + row list" where
  "map_rows f [] = Inr []"
| "map_rows f (r # rs) =
     (case f r of
        Inl e \<Rightarrow> Inl e
      | Inr r' \<Rightarrow> (case map_rows f rs of Inl e \<Rightarrow> Inl e | Inr rs' \<Rightarrow> Inr (r' # rs')))"

text \<open>
  \<open>df[c] = ...\<close>, the new cell computed row by row by \<open>f\<close>: an existing column is
  overwritten in place, a new one is appended behind the others.
\<close>

definition add_column :: "string \<Rightarrow> string list \<Rightarrow> string list" where
  "add_column c cols = (if c \<in> set cols then cols else cols @ [c])"

definition assign :: "dataframe \<Rightarrow> string \<Rightarrow> (row \<Rightarrow> error + pyval) \<Rightarrow> error + dataframe" where
  "assign df c f =
     (case map_rows (\<lambda>r. err_bind (f r) (\<lambda>v. Inr (r(c := v)))) (rows df) of
        Inl e \<Rightarrow> Inl e
      | Inr rs \<Rightarrow> Inr \<lparr>columns = add_column c (columns df), rows = rs\<rparr>)"

text \<open>
  The float in a cell of a float column (a column that \<open>load_data\<close> computed holds
  nothing else).
\<close>

definition float_of :: "pyval \<Rightarrow> pyfloat" where
  "float_of v = (case v of PyFloat f \<Rightarrow> f | _ \<Rightarrow> NaN)"

section \<open>\<open>load_data\<close> (Summative.py, lines 21 to 104)\<close>

text \<open>
  \<open>pd.to_datetime(col, errors="coerce")\<close>. The date parser of pandas is a parameter.
  On the column \<open>col\<close> it either raises, \<open>parse col = Inl e\<close> (with
  \<open>errors="coerce"\<close> pandas still raises \<open>ValueError\<close> on a column whose dates carry
  different UTC offsets), or it reads the cells, \<open>parse col = Inr p\<close>: then \<open>p v\<close> is the
  timestamp read from the cell \<open>v\<close>, or \<open>None\<close> when it cannot read one, which
  \<open>errors="coerce"\<close> turns into \<open>NaT\<close>.
\<close>

type_synonym date_parser = "pyval list \<Rightarrow> error + (pyval \<Rightarrow> timestamp option)"

definition coerce :: "(pyval \<Rightarrow> timestamp option) \<Rightarrow> pyval \<Rightarrow> pyval" where
  "coerce p v =
     (if isna v then PyNaT
      else (case p v of Some t \<Rightarrow> PyTimestamp t | None \<Rightarrow> PyNaT))"

text \<open>The conversion of the cells of the column, when the parser returns.\<close>

definition to_datetime_coerce :: "date_parser \<Rightarrow> pyval list \<Rightarrow> error + (pyval \<Rightarrow> pyval)" where
  "to_datetime_coerce parse col =
     (case parse col of Inl e \<Rightarrow> Inl e | Inr p \<Rightarrow> Inr (coerce p))"

definition convert_date :: "date_parser \<Rightarrow> string \<Rightarrow> dataframe \<Rightarrow> error + dataframe" where
  "convert_date parse c df =
     (if c \<in> set (columns df)
      then err_bind (to_datetime_coerce parse (map (\<lambda>r'. r' c) (rows df)))
             (\<lambda>conv. assign df c (\<lambda>r. err_bind (cell df r c) (\<lambda>v. Inr (conv v))))
      else Inr df)"

text \<open>
  That \<open>pd.to_datetime\<close> returns on the column \<open>c\<close> of a table, in case the table
  has that column (lines 25 and 27 call it only then).
\<close>

definition to_datetime_returns :: "date_parser \<Rightarrow> string \<Rightarrow> dataframe \<Rightarrow> bool" where
  "to_datetime_returns parse c df =
     (c \<in> set (columns df) \<longrightarrow> \<not> isl (parse (map (\<lambda>r'. r' c) (rows df))))"

text \<open>\<open>df.rename(columns=rename_map)\<close> with the map of lines 31 to 37.\<close>

definition rename_label :: "string \<Rightarrow> string" where
  "rename_label c =
     (if c = ''Name'' then ''Player_Name''
      else if c = ''Team Name'' then ''Team''
      else if c = ''FIFA rating'' then ''FIFA_Rating''
      else c)"

definition rename_row :: "string list \<Rightarrow> row \<Rightarrow> row" where
  "rename_row cols r =
     (\<lambda>k. if k = ''Player_Name'' \<and> ''Name'' \<in> set cols then r ''Name''
          else if k = ''Team'' \<and> ''Team Name'' \<in> set cols then r ''Team Name''
          else if k = ''FIFA_Rating'' \<and> ''FIFA rating'' \<in> set cols then r ''FIFA rating''
          else r k)"

definition rename_columns :: "dataframe \<Rightarrow> dataframe" where
  "rename_columns df =
     \<lparr>columns = map rename_label (columns df),
      rows = map (rename_row (columns df)) (rows df)\<rparr>"

text \<open>
  The \<open>.dt\<close> accessor raises \<open>AttributeError\<close> on a column that does not hold
  timestamps (the column that line 25 has converted holds nothing else).
  \<open>month_name()\<close> and \<open>year\<close> give \<open>nan\<close> for \<open>NaT\<close>; the years are floats when the
  column has a \<open>NaT\<close> and integers otherwise.
\<close>

definition is_datetime :: "pyval \<Rightarrow> bool" where
  "is_datetime v = (case v of PyTimestamp t \<Rightarrow> True | PyNaT \<Rightarrow> True | _ \<Rightarrow> False)"

definition month_name :: "month \<Rightarrow> string" where
  "month_name m =
     (case m of
        January \<Rightarrow> ''January'' | February \<Rightarrow> ''February'' | March \<Rightarrow> ''March''
      | April \<Rightarrow> ''April'' | May \<Rightarrow> ''May'' | June \<Rightarrow> ''June''
      | July \<Rightarrow> ''July'' | August \<Rightarrow> ''August'' | September \<Rightarrow> ''September''
      | October \<Rightarrow> ''October'' | November \<Rightarrow> ''November'' | December \<Rightarrow> ''December'')"

definition dt_month_name :: "pyval list \<Rightarrow> pyval \<Rightarrow> error + pyval" where
  "dt_month_name col v =
     (if list_all is_datetime col
      then Inr (case v of PyTimestamp t \<Rightarrow> PyStr (month_name (ts_month t)) | _ \<Rightarrow> PyFloat NaN)
      else Inl AttributeError)"

definition dt_year :: "pyval list \<Rightarrow> pyval \<Rightarrow> error + pyval" where
  "dt_year col v =
     (if list_all is_datetime col
      then Inr (case v of
                  PyTimestamp t \<Rightarrow>
                    if PyNaT \<in> set col then PyFloat (round64 (of_int (ts_year t)))
                    else PyInt (ts_year t)
                | _ \<Rightarrow> PyFloat NaN)
      else Inl AttributeError)"

definition add_injury_month_year :: "dataframe \<Rightarrow> error + dataframe" where
  "add_injury_month_year df =
     (if ''Date of Injury'' \<in> set (columns df)
      then (let col = map (\<lambda>r. r ''Date of Injury'') (rows df)
            in err_bind
                 (assign df ''Injury_Month''
                    (\<lambda>r. err_bind (cell df r ''Date of Injury'') (dt_month_name col)))
                 (\<lambda>df1. assign df1 ''Injury_Year''
                    (\<lambda>r. err_bind (cell df1 r ''Date of Injury'') (dt_year col))))
      else err_bind (assign df ''Injury_Month'' (\<lambda>r. Inr (PyFloat NaN)))
             (\<lambda>df1. assign df1 ''Injury_Year'' (\<lambda>r. Inr (PyFloat NaN))))"

text \<open>Lines 64 and 65: the rating and the goal-difference columns, found by their labels.\<close>

definition rating_cols :: "dataframe \<Rightarrow> string list" where
  "rating_cols df = filter (str_contains ''Player_rating'') (columns df)"

definition gd_cols :: "dataframe \<Rightarrow> string list" where
  "gd_cols df = filter (\<lambda>c. endswith c ''_GD'') (columns df)"

text \<open>Lines 68 and 69: \<open>for c in rating_cols + gd_cols: df[c] = df[c].apply(clean_numeric)\<close>.\<close>

fun clean_columns :: "(rat \<Rightarrow> string) \<Rightarrow> string list \<Rightarrow> dataframe \<Rightarrow> error + dataframe" where
  "clean_columns repr [] df = Inr df"
| "clean_columns repr (c # cs) df =
     err_bind
       (assign df c (\<lambda>r. err_bind (cell df r c) (\<lambda>v. Inr (PyFloat (clean_numeric repr v)))))
       (clean_columns repr cs)"

text \<open>What that loop does to one row: the cells under the labels are cleaned one after the other.\<close>

definition clean_row :: "(rat \<Rightarrow> string) \<Rightarrow> string list \<Rightarrow> row \<Rightarrow> row" where
  "clean_row repr cs r = foldl (\<lambda>r c. r(c := PyFloat (clean_numeric repr (r c)))) r cs"

text \<open>
  \<open>df[cols].mean(axis=1, skipna=True)\<close> for one row, and lines 75 to 78 (and their
  three repetitions): the mean when the list of columns is not empty, \<open>np.nan\<close>
  otherwise.
\<close>

fun cells_float :: "dataframe \<Rightarrow> row \<Rightarrow> string list \<Rightarrow> error + pyfloat list" where
  "cells_float df r [] = Inr []"
| "cells_float df r (c # cs) =
     err_bind (cell df r c)
       (\<lambda>v. err_bind (cell_float v)
          (\<lambda>f. err_bind (cells_float df r cs) (\<lambda>fs. Inr (f # fs))))"

definition row_mean :: "dataframe \<Rightarrow> string list \<Rightarrow> row \<Rightarrow> error + pyval" where
  "row_mean df cs r = err_bind (cells_float df r cs) (\<lambda>fs. Inr (PyFloat (nanmean fs)))"

definition assign_mean :: "string \<Rightarrow> string list \<Rightarrow> dataframe \<Rightarrow> error + dataframe" where
  "assign_mean name cs df =
     (if cs \<noteq> [] then assign df name (row_mean df cs)
      else assign df name (\<lambda>r. Inr (PyFloat NaN)))"

text \<open>\<open>df[name] = df[a] - df[b]\<close>.\<close>

definition assign_difference :: "string \<Rightarrow> string \<Rightarrow> string \<Rightarrow> dataframe \<Rightarrow> error + dataframe" where
  "assign_difference name a b df =
     assign df name
       (\<lambda>r. err_bind (cell df r a)
          (\<lambda>va. err_bind (cell_float va)
             (\<lambda>x. err_bind (cell df r b)
                (\<lambda>vb. err_bind (cell_float vb)
                   (\<lambda>y. Inr (PyFloat (fsub x y)))))))"

definition has_before :: "string \<Rightarrow> bool" where
  "has_before c = str_contains ''before'' (lower c)"

definition has_after :: "string \<Rightarrow> bool" where
  "has_after c = str_contains ''after'' (lower c)"

definition has_missed :: "string \<Rightarrow> bool" where
  "has_missed c = str_contains ''missed'' (lower c)"

text \<open>
  \<open>load_data\<close> from the table that \<open>pd.read_csv\<close> returned (line 22) to the table
  it returns (line 104). \<open>repr\<close> is the text of a finite float, \<open>parse\<close> the date
  parser of pandas.
\<close>

definition load_data :: "(rat \<Rightarrow> string) \<Rightarrow> date_parser \<Rightarrow> dataframe \<Rightarrow> error + dataframe" where
  "load_data repr parse df0 =
     err_bind (convert_date parse ''Date of Injury'' df0) (\<lambda>df1.
     err_bind (convert_date parse ''Date of return'' df1) (\<lambda>df2.
     err_bind (add_injury_month_year (rename_columns df2)) (\<lambda>df3.
     let rating = rating_cols df3; gd = gd_cols df3 in
     err_bind (clean_columns repr (rating @ gd) df3) (\<lambda>df4.
     err_bind (assign_mean ''avg_rating_before'' (filter has_before rating) df4) (\<lambda>df5.
     err_bind (assign_mean ''avg_rating_after'' (filter has_after rating) df5) (\<lambda>df6.
     err_bind (assign_difference ''rating_change'' ''avg_rating_after'' ''avg_rating_before'' df6) (\<lambda>df7.
     err_bind (assign_mean ''team_gd_before'' (filter has_before gd) df7) (\<lambda>df8.
     err_bind (assign_mean ''team_gd_missed'' (filter has_missed gd) df8) (\<lambda>df9.
     assign_difference ''performance_drop_index'' ''team_gd_before'' ''team_gd_missed'' df9)))))))))"

section \<open>\<open>main\<close>: the filters (Summative.py, lines 133 to 175)\<close>

text \<open>
  The lists that the three \<open>multiselect\<close> widgets return are inputs. Lines 134 to
  165: the filter of a dimension is the widget's list when the table has the column,
  and the empty list otherwise.
\<close>

definition sidebar_filters ::
  "dataframe \<Rightarrow> pyval list \<Rightarrow> pyval list \<Rightarrow> pyval list \<Rightarrow> pyval list \<times> pyval list \<times> pyval list" where
  "sidebar_filters df season_sel team_sel player_sel =
     (if ''Season'' \<in> set (columns df) then season_sel else [],
      if ''Team'' \<in> set (columns df) then team_sel else [],
      if ''Player_Name'' \<in> set (columns df) then player_sel else [])"

text \<open>\<open>filtered[filtered[c].isin(vals)]\<close>: \<open>KeyError\<close> when the table has no column \<open>c\<close>.\<close>

definition isin_filter :: "dataframe \<Rightarrow> string \<Rightarrow> pyval list \<Rightarrow> error + dataframe" where
  "isin_filter df c vals =
     (if c \<in> set (columns df)
      then Inr \<lparr>columns = columns df, rows = filter (\<lambda>r. r c \<in> set vals) (rows df)\<rparr>
      else Inl KeyError)"

text \<open>Lines 168 to 175.\<close>

definition apply_filters ::
  "dataframe \<Rightarrow> pyval list \<Rightarrow> pyval list \<Rightarrow> pyval list \<Rightarrow> error + dataframe" where
  "apply_filters df season_filter team_filter player_filter =
     err_bind
       (if ''Season'' \<in> set (columns df) \<and> season_filter \<noteq> []
        then isin_filter df ''Season'' season_filter else Inr df) (\<lambda>f1.
     err_bind
       (if team_filter \<noteq> [] then isin_filter f1 ''Team'' team_filter else Inr f1) (\<lambda>f2.
       (if player_filter \<noteq> [] then isin_filter f2 ''Player_Name'' player_filter else Inr f2)))"

definition filtered ::
  "dataframe \<Rightarrow> pyval list \<Rightarrow> pyval list \<Rightarrow> pyval list \<Rightarrow> error + dataframe" where
  "filtered df season_sel team_sel player_sel =
     (case sidebar_filters df season_sel team_sel player_sel of
        (season_filter, team_filter, player_filter) \<Rightarrow>
          apply_filters df season_filter team_filter player_filter)"

section \<open>\<open>main\<close>: the summary numbers (lines 182 to 198)\<close>

definition total_injuries :: "dataframe \<Rightarrow> nat" where
  "total_injuries df = length (rows df)"

text \<open>\<open>Series.nunique()\<close>: the number of distinct values that are not null.\<close>

definition nunique :: "pyval list \<Rightarrow> nat" where
  "nunique vs = length (remdups (filter (\<lambda>v. \<not> isna v) vs))"

definition unique_players :: "dataframe \<Rightarrow> nat" where
  "unique_players df =
     (if ''Player_Name'' \<in> set (columns df)
      then nunique (map (\<lambda>r. r ''Player_Name'') (rows df)) else 0)"

definition unique_teams :: "dataframe \<Rightarrow> nat" where
  "unique_teams df =
     (if ''Team'' \<in> set (columns df) then nunique (map (\<lambda>r. r ''Team'') (rows df)) else 0)"

definition avg_drop :: "dataframe \<Rightarrow> pyfloat" where
  "avg_drop df = nanmean (map (\<lambda>r. float_of (r ''performance_drop_index'')) (rows df))"

section \<open>Sorting\<close>

text \<open>
  The order of floats: \<open>-inf\<close>, the finite numbers by value, \<open>inf\<close>. The order in which
  pandas sorts the labels of groups: numbers by value, strings by code points (the
  labels of one column have one type; between types the model puts numbers first,
  then timestamps, then strings).
\<close>

fun float_key :: "pyfloat \<Rightarrow> int \<times> rat" where
  "float_key NInf = (- 1, 0)"
| "float_key (Fin q) = (0, q)"
| "float_key PInf = (1, 0)"
| "float_key NaN = (2, 0)"

fun pyval_key :: "pyval \<Rightarrow> nat \<times> (int \<times> rat) \<times> string" where
  "pyval_key (PyBool b) = (0, (0, if b then 1 else 0), '''')"
| "pyval_key (PyInt n) = (0, (0, of_int n), '''')"
| "pyval_key (PyFloat f) = (0, float_key f, '''')"
| "pyval_key (PyTimestamp t) =
     (1, (ts_year t, of_nat (month_number (ts_month t) * 100 + ts_day t)), '''')"
| "pyval_key (PyStr s) = (2, (0, 0), s)"
| "pyval_key PyNaT = (3, (0, 0), '''')"

definition pair_key ::
  "pyval \<times> pyval \<Rightarrow> (nat \<times> (int \<times> rat) \<times> string) \<times> (nat \<times> (int \<times> rat) \<times> string)" where
  "pair_key k = (pyval_key (fst k), pyval_key (snd k))"

text \<open>
  \<open>sort_values(by, ascending=False)\<close> with the default \<open>na_position='last'\<close>: the
  records whose value is not null in descending order, then the records whose value is
  null. Records of equal value are kept in their order here; the sort of pandas
  (\<open>kind='quicksort'\<close>) fixes no order among them, and nothing below depends on it.
\<close>

definition sort_values_desc :: "('a \<Rightarrow> pyfloat) \<Rightarrow> 'a list \<Rightarrow> 'a list" where
  "sort_values_desc f xs =
     rev (sort_key (\<lambda>x. float_key (f x)) (rev (filter (\<lambda>x. f x \<noteq> NaN) xs)))
       @ filter (\<lambda>x. f x = NaN) xs"

text \<open>
  The same with the sort left open. pandas reverses the records whose value is not
  null, sorts them in ascending order with \<open>np.argsort(kind='quicksort')\<close>, reverses the
  result and puts the records with a null value behind it. \<open>argsort\<close> is a parameter:
  \<open>argsort k xs\<close> are the items \<open>xs\<close> in ascending order of their keys \<open>k\<close>, in
  whatever order it leaves items of equal key.
\<close>

definition sort_values_desc_by ::
  "(('a \<Rightarrow> int \<times> rat) \<Rightarrow> 'a list \<Rightarrow> 'a list) \<Rightarrow> ('a \<Rightarrow> pyfloat) \<Rightarrow> 'a list \<Rightarrow> 'a list" where
  "sort_values_desc_by argsort f xs =
     rev (argsort (\<lambda>x. float_key (f x)) (rev (filter (\<lambda>x. f x \<noteq> NaN) xs)))
       @ filter (\<lambda>x. f x = NaN) xs"

section \<open>\<open>main\<close>: the ranking (lines 207 to 211)\<close>

text \<open>\<open>top_drops\<close>; \<open>None\<close> when the chart is replaced by the notice of line 230.\<close>

definition top_drops :: "dataframe \<Rightarrow> row list option" where
  "top_drops df =
     (if length (filter (\<lambda>r. \<not> isna (r ''performance_drop_index'')) (rows df)) > 0
      then Some (take 10
             (sort_values_desc (\<lambda>r. float_of (r ''performance_drop_index'')) (rows df)))
      else None)"

section \<open>\<open>main\<close>: the frequency grid (lines 299 to 318)\<close>

text \<open>
  \<open>groupby([a, b])\<close>: the records with a null under \<open>a\<close> or \<open>b\<close> are left out
  (\<open>dropna=True\<close> is the default), the label pairs are sorted, and each pair comes with
  its records. \<open>size().reset_index(...)\<close> gives each pair the number of its records.
\<close>

definition groupby :: "string \<Rightarrow> string \<Rightarrow> row list \<Rightarrow> ((pyval \<times> pyval) \<times> row list) list" where
  "groupby a b rs =
     (let keyed = filter (\<lambda>r. \<not> isna (r a) \<and> \<not> isna (r b)) rs;
          keys = sort_key pair_key (remdups (map (\<lambda>r. (r a, r b)) keyed))
      in map (\<lambda>k. (k, filter (\<lambda>r. (r a, r b) = k) keyed)) keys)"

definition groupby_size :: "string \<Rightarrow> string \<Rightarrow> row list \<Rightarrow> ((pyval \<times> pyval) \<times> nat) list" where
  "groupby_size a b rs = map (\<lambda>g. (fst g, length (snd g))) (groupby a b rs)"

text \<open>
  A pivoted table: the labels of its rows, the labels of its columns, and the cell of
  a row label and a column label.
\<close>

record 'a pivot_table =
  pt_index :: "pyval list"
  pt_columns :: "pyval list"
  pt_cell :: "pyval \<Rightarrow> pyval \<Rightarrow> 'a"

text \<open>\<open>pivot\<close>: a cell without a count is null (\<open>None\<close>). \<open>fillna(0)\<close> makes it 0.\<close>

definition pivot :: "((pyval \<times> pyval) \<times> nat) list \<Rightarrow> nat option pivot_table" where
  "pivot heat_df =
     \<lparr>pt_index = sort_key pyval_key (remdups (map (\<lambda>e. fst (fst e)) heat_df)),
      pt_columns = sort_key pyval_key (remdups (map (\<lambda>e. snd (fst e)) heat_df)),
      pt_cell = (\<lambda>t m. map_of heat_df (t, m))\<rparr>"

definition fillna0 :: "nat option pivot_table \<Rightarrow> nat pivot_table" where
  "fillna0 pt =
     \<lparr>pt_index = pt_index pt, pt_columns = pt_columns pt,
      pt_cell = (\<lambda>t m. case pt_cell pt t m of None \<Rightarrow> 0 | Some n \<Rightarrow> n)\<rparr>"

definition month_order :: "string list" where
  "month_order =
     [''January'', ''February'', ''March'', ''April'', ''May'', ''June'',
      ''July'', ''August'', ''September'', ''October'', ''November'', ''December'']"

text \<open>
  \<open>reindex(columns=[m for m in month_order if m in heat_pivot.columns])\<close>: every new
  label is a column of the table, so the cells stay what they are.
\<close>

definition reindex_months :: "nat pivot_table \<Rightarrow> nat pivot_table" where
  "reindex_months pt =
     \<lparr>pt_index = pt_index pt,
      pt_columns = map PyStr (filter (\<lambda>m. PyStr m \<in> set (pt_columns pt)) month_order),
      pt_cell = pt_cell pt\<rparr>"

text \<open>\<open>heat_pivot\<close>; \<open>None\<close> when one of the notices of lines 327 and 329 is shown instead.\<close>

definition heat_pivot :: "dataframe \<Rightarrow> nat pivot_table option" where
  "heat_pivot df =
     (if ''Team'' \<in> set (columns df) \<and> ''Injury_Month'' \<in> set (columns df)
      then (let heat_df = groupby_size ''Team'' ''Injury_Month'' (rows df)
            in if heat_df \<noteq> [] then Some (reindex_months (fillna0 (pivot heat_df))) else None)
      else None)"

section \<open>\<open>main\<close>: the leaderboard (lines 369 to 381)\<close>

record lb_row =
  lb_player :: pyval
  lb_team :: pyval
  Injuries_Count :: nat
  Avg_Rating_Before :: pyfloat
  Avg_Rating_After :: pyfloat
  Avg_Rating_Change :: pyfloat

text \<open>
  The mean of the values of a group, as \<open>groupby(...).agg\<close> computes \<open>"mean"\<close>: the
  values that are not null are added up in the order of the records with Kahan's
  compensated summation (a compensation that comes out as \<open>nan\<close> is reset to 0.0), and
  the sum is divided by their number; \<open>nan\<close> if there is none. All operations are
  those of binary64.
\<close>

definition kahan_step :: "pyfloat \<times> pyfloat \<Rightarrow> pyfloat \<Rightarrow> pyfloat \<times> pyfloat" where
  "kahan_step sc v =
     (case sc of
        (sumx, compensation) \<Rightarrow>
          (let y = fsub v compensation;
               t = fadd sumx y;
               c = fsub (fsub t sumx) y
           in (t, if c = NaN then Fin 0 else c)))"

definition group_mean :: "pyfloat list \<Rightarrow> pyfloat" where
  "group_mean fs =
     (let xs = filter (\<lambda>f. f \<noteq> NaN) fs
      in if xs = [] then NaN
         else fdiv_count (fst (foldl kahan_step (Fin 0, Fin 0) xs)) (length xs))"

text \<open>
  The aggregation of one group: \<open>count\<close> counts the cells of the counted column that
  are not null, \<open>mean\<close> is the mean of the values that are not null.
\<close>

definition aggregate :: "string \<Rightarrow> pyval \<times> pyval \<Rightarrow> row list \<Rightarrow> lb_row" where
  "aggregate count_col k members =
     \<lparr>lb_player = fst k, lb_team = snd k,
      Injuries_Count = length (filter (\<lambda>r. \<not> isna (r count_col)) members),
      Avg_Rating_Before = group_mean (map (\<lambda>r. float_of (r ''avg_rating_before'')) members),
      Avg_Rating_After = group_mean (map (\<lambda>r. float_of (r ''avg_rating_after'')) members),
      Avg_Rating_Change = group_mean (map (\<lambda>r. float_of (r ''rating_change'')) members)\<rparr>"

text \<open>\<open>groupby(["Player_Name", "Team"]).agg(...).reset_index()\<close>: each group is aggregated.\<close>

definition groupby_agg :: "string \<Rightarrow> row list \<Rightarrow> lb_row list" where
  "groupby_agg count_col rs =
     map (\<lambda>g. aggregate count_col (fst g) (snd g)) (groupby ''Player_Name'' ''Team'' rs)"

text \<open>Line 373: the column whose cells \<open>Injuries_Count\<close> counts.\<close>

definition count_col :: "dataframe \<Rightarrow> string" where
  "count_col df = (if ''Injury'' \<in> set (columns df) then ''Injury'' else ''Player_Name'')"

text \<open>
  \<open>leaderboard\<close>: \<open>Inr None\<close> when the notice of line 396 is shown instead;
  \<open>KeyError\<close> when a column that \<open>groupby\<close> or \<open>agg\<close> names is missing. \<open>argsort\<close> is
  the sort that \<open>sort_values\<close> uses.
\<close>

definition leaderboard ::
  "((lb_row \<Rightarrow> int \<times> rat) \<Rightarrow> lb_row list \<Rightarrow> lb_row list) \<Rightarrow> dataframe \<Rightarrow> error + lb_row list option" where
  "leaderboard argsort df =
     (if ''Player_Name'' \<in> set (columns df) \<and> ''rating_change'' \<in> set (columns df)
      then (if ''Team'' \<in> set (columns df) \<and> ''avg_rating_before'' \<in> set (columns df)
               \<and> ''avg_rating_after'' \<in> set (columns df)
            then Inr (Some (take 15
                   (sort_values_desc_by argsort Avg_Rating_Change
                      (groupby_agg (count_col df) (rows df)))))
            else Inl KeyError)
      else Inr None)"

section \<open>Properties of the rounding\<close>

lemma pow2_double: "2 * pow2 (e - 1) = pow2 e"
proof -
  consider "e \<le> 0" | "0 < e" by linarith
  then show ?thesis
  proof cases
    case 1
    then have "nat (- (e - 1)) = Suc (nat (- e))" by simp
    with 1 show ?thesis by (simp add: pow2_def)
  next
    case 2
    then have "nat e = Suc (nat (e - 1))" by simp
    with 2 show ?thesis by (simp add: pow2_def)
  qed
qed

lemma scale_up_value: "scale_up x e = (x', e') \<Longrightarrow> x' * pow2 e' = x * pow2 e"
proof (induction x e rule: scale_up.induct)
  case (1 x e)
  show ?case
  proof (cases "x < 2 ^ 52 \<and> - 1074 < e")
    case True
    with "1.prems" have "scale_up (2 * x) (e - 1) = (x', e')"
      by (simp add: scale_up.simps[of x e])
    from "1.IH"[OF True this] have "x' * pow2 e' = x * (2 * pow2 (e - 1))" by simp
    then show ?thesis by (simp only: pow2_double)
  next
    case False
    then have "scale_up x e = (x, e)"
      by (subst scale_up.simps) (rule if_not_P)
    with "1.prems" show ?thesis by simp
  qed
qed

lemma scale_up_int: "scale_up x e = (x', e') \<Longrightarrow> x \<in> \<int> \<Longrightarrow> x' \<in> \<int>"
proof (induction x e rule: scale_up.induct)
  case (1 x e)
  show ?case
  proof (cases "x < 2 ^ 52 \<and> - 1074 < e")
    case True
    with "1.prems" have "scale_up (2 * x) (e - 1) = (x', e')"
      by (simp add: scale_up.simps[of x e])
    moreover have "2 * x \<in> \<int>" using "1.prems"(2) by simp
    ultimately show ?thesis using "1.IH"[OF True] by blast
  next
    case False
    then have "scale_up x e = (x, e)"
      by (subst scale_up.simps) (rule if_not_P)
    with "1.prems" show ?thesis by simp
  qed
qed

lemma round_half_even_int: "x \<in> \<int> \<Longrightarrow> of_int (round_half_even x) = x"
  by (auto simp add: round_half_even_def elim!: Ints_cases)

lemma scale_down_small: "x < 2 ^ 53 \<Longrightarrow> scale_down x e = (x, e)"
  by (simp add: scale_down.simps[of x e])

text \<open>The integers of magnitude below \<open>2 ^ 53\<close> are binary64 numbers.\<close>

lemma round64_int:
  assumes "\<bar>n\<bar> < 2 ^ 53"
  shows "round64 (of_int n) = Fin (of_int n)"
proof (cases "n = 0")
  case True
  then show ?thesis by (simp add: round64_def)
next
  case False
  let ?q = "of_int n :: rat"
  have "(of_int \<bar>n\<bar> :: rat) < of_int (2 ^ 53)"
    using assms by (simp only: of_int_less_iff)
  then have a: "\<bar>?q\<bar> < 2 ^ 53" by simp
  obtain x e where s: "scale_up \<bar>?q\<bar> 0 = (x, e)"
    by (cases "scale_up \<bar>?q\<bar> 0") auto
  from scale_up_value[OF s] have v: "x * pow2 e = \<bar>?q\<bar>" by (simp add: pow2_def)
  have "\<bar>?q\<bar> \<in> \<int>" by simp
  from scale_up_int[OF s this] have "of_int (round_half_even x) = x"
    by (rule round_half_even_int)
  then have m: "of_int (round_half_even x) * pow2 e = \<bar>?q\<bar>" using v by simp
  have "(2::rat) ^ 53 \<le> 2 ^ 1024" by (rule power_increasing) simp_all
  with a have b: "\<not> 2 ^ 1024 \<le> \<bar>?q\<bar>" by linarith
  show ?thesis
    using False b by (simp add: round64_def scale_down_small[OF a] s m Let_def)
qed

lemma round64_0: "round64 0 = Fin 0"
  by (simp add: round64_def)

lemma round64_1: "round64 1 = Fin 1"
  using round64_int[of 1] by simp

lemma round64_neg_1: "round64 (- 1) = Fin (- 1)"
  using round64_int[of "- 1"] by simp

lemma round64_numeral:
  "(numeral k :: int) < 2 ^ 53 \<Longrightarrow> round64 (numeral k) = Fin (numeral k)"
  using round64_int[of "numeral k"] by simp

lemma round64_neg_numeral:
  "(numeral k :: int) < 2 ^ 53 \<Longrightarrow> round64 (- numeral k) = Fin (- numeral k)"
  using round64_int[of "- numeral k"] by simp

lemmas round64_eval = round64_0 round64_1 round64_neg_1 round64_numeral round64_neg_numeral

section \<open>Properties of the string functions\<close>

lemma dropWhile_rev_strip:
  "dropWhile P (rev (dropWhile P (rev (dropWhile P s)))) = rev (dropWhile P (rev (dropWhile P s)))"
proof -
  define u where "u = dropWhile P s"
  define w where "w = dropWhile P (rev u)"
  have hu: "u = [] \<or> \<not> P (hd u)"
    unfolding u_def using hd_dropWhile[of P s] by blast
  have "rev u = takeWhile P (rev u) @ w"
    unfolding w_def by simp
  then have "u = rev w @ rev (takeWhile P (rev u))"
    by (metis rev_append rev_rev_ident)
  then have "rev w \<noteq> [] \<Longrightarrow> hd u = hd (rev w)"
    by (metis hd_append2)
  moreover have "u = [] \<Longrightarrow> w = []"
    unfolding w_def by simp
  ultimately have "rev w = [] \<or> \<not> P (hd (rev w))"
    using hu by auto
  then have "dropWhile P (rev w) = rev w"
    by (cases "rev w") auto
  then show ?thesis
    unfolding w_def u_def .
qed

lemma strip_idem: "strip (strip s) = strip s"
  unfolding strip_def by (simp add: dropWhile_rev_strip)

lemma py_float_strip: "py_float (strip s) = py_float s"
  by (simp add: py_float_def strip_idem)

lemma lower_char_cases:
  "lower_char c = d \<Longrightarrow> c = d \<or> (of_char c :: nat) + 32 = of_char d"
  by (auto simp add: lower_char_def Let_def split: if_splits)

lemma strip_underscores_set:
  "strip_underscores p xs = Some t \<Longrightarrow> set xs \<subseteq> insert (CHR ''_'') (set t)"
proof (induction xs arbitrary: p t)
  case Nil
  then show ?case by simp
next
  case (Cons c cs)
  show ?case
  proof (cases "c = CHR ''_''")
    case True
    with Cons.prems have "strip_underscores c cs = Some t"
      by (simp split: if_splits)
    from Cons.IH[OF this] True show ?thesis by auto
  next
    case False
    with Cons.prems obtain t' where t': "strip_underscores c cs = Some t'" "t = c # t'"
      by (auto split: if_splits)
    from Cons.IH[OF t'(1)] t'(2) show ?thesis by auto
  qed
qed

lemma split_sign_set:
  "split_sign s = (neg, body) \<Longrightarrow> set s \<subseteq> {CHR ''-'', CHR ''+''} \<union> set body"
  by (cases s) (auto simp add: split_sign_def split: if_splits)

lemma parse_exponent_set:
  assumes "parse_exponent r = Some ex" and "c \<in> set r"
  shows "is_digit c \<or> c \<in> {CHR ''e'', CHR ''E'', CHR ''+'', CHR ''-''}"
proof (cases r)
  case Nil
  with assms(2) show ?thesis by simp
next
  case (Cons e es)
  obtain neg ds where sp: "split_sign es = (neg, ds)"
    by (cases "split_sign es") auto
  from assms(1) Cons sp have e: "e = CHR ''e'' \<or> e = CHR ''E''" and ds: "list_all is_digit ds"
    by (auto simp add: parse_exponent_def split: if_splits)
  from split_sign_set[OF sp] have "set es \<subseteq> {CHR ''-'', CHR ''+''} \<union> set ds" .
  with ds have "\<forall>x \<in> set es. is_digit x \<or> x \<in> {CHR ''-'', CHR ''+''}"
    by (auto simp add: list_all_iff)
  with e assms(2) Cons show ?thesis by auto
qed

lemma takeWhile_digit: "x \<in> set (takeWhile is_digit xs) \<Longrightarrow> is_digit x"
  by (auto dest: set_takeWhileD)

lemma parse_decimal_set:
  assumes "parse_decimal s = Some q" and "c \<in> set s"
  shows "is_digit c \<or> c \<in> {CHR ''.'', CHR ''e'', CHR ''E'', CHR ''+'', CHR ''-''}"
proof -
  define r1 where "r1 = dropWhile is_digit s"
  have s: "s = takeWhile is_digit s @ r1"
    by (simp add: r1_def)
  have r1_ok: "is_digit x \<or> x \<in> {CHR ''.'', CHR ''e'', CHR ''E'', CHR ''+'', CHR ''-''}"
    if x: "x \<in> set r1" for x
  proof (cases r1)
    case Nil
    with x show ?thesis by simp
  next
    case (Cons d cs)
    show ?thesis
    proof (cases "d = CHR ''.''")
      case True
      let ?r2 = "dropWhile is_digit cs"
      have cs: "cs = takeWhile is_digit cs @ ?r2" by simp
      from assms(1) Cons True
      have "parse_exponent ?r2 \<noteq> None"
        unfolding parse_decimal_def Let_def r1_def[symmetric]
        by (simp split: if_splits option.splits)
      then obtain ex where "parse_exponent ?r2 = Some ex" by auto
      then have "\<And>y. y \<in> set ?r2 \<Longrightarrow> is_digit y \<or> y \<in> {CHR ''e'', CHR ''E'', CHR ''+'', CHR ''-''}"
        using parse_exponent_set by blast
      moreover have "x = d \<or> x \<in> set (takeWhile is_digit cs) \<or> x \<in> set ?r2"
        using x Cons cs by (metis Un_iff set_ConsD set_append)
      ultimately show ?thesis using True takeWhile_digit by blast
    next
      case False
      from assms(1) Cons False
      have "parse_exponent r1 \<noteq> None"
        unfolding parse_decimal_def Let_def r1_def[symmetric]
        by (simp split: if_splits option.splits)
      then obtain ex where "parse_exponent r1 = Some ex" by auto
      then show ?thesis using parse_exponent_set x by blast
    qed
  qed
  from assms(2) s have "c \<in> set (takeWhile is_digit s) \<or> c \<in> set r1"
    by (metis Un_iff set_append)
  then show ?thesis using takeWhile_digit r1_ok by blast
qed

lemma lower_set: "lower body = w \<Longrightarrow> c \<in> set body \<Longrightarrow> lower_char c \<in> set w"
  by (auto simp add: lower_def)

lemma lower_char_paren: "lower_char (CHR ''('') = CHR ''(''" "lower_char (CHR '','') = CHR '',''"
  by (simp_all add: lower_char_def)

lemma py_float_chars:
  assumes "py_float s = Inr v" and "c \<in> set (strip s)"
  shows "c \<noteq> CHR ''('' \<and> c \<noteq> CHR '',''"
proof -
  from assms(1) obtain t where t: "strip_underscores (CHR 0x00) (strip s) = Some t"
    by (auto simp add: py_float_def split: option.splits)
  obtain neg body where sp: "split_sign t = (neg, body)"
    by (cases "split_sign t") auto
  have body: "x \<noteq> CHR ''('' \<and> x \<noteq> CHR '',''" if x: "x \<in> set body" for x
  proof -
    from assms(1) t sp
    consider "lower body = ''inf''" | "lower body = ''infinity''" | "lower body = ''nan''"
      | q where "parse_decimal body = Some q"
      by (auto simp add: py_float_def split: if_splits option.splits)
    then show ?thesis
    proof cases
      case 1
      from lower_set[OF this x] show ?thesis using lower_char_paren by auto
    next
      case 2
      from lower_set[OF this x] show ?thesis using lower_char_paren by auto
    next
      case 3
      from lower_set[OF this x] show ?thesis using lower_char_paren by auto
    next
      case 4
      from parse_decimal_set[OF this x] show ?thesis
        by (auto simp add: is_digit_def)
    qed
  qed
  from strip_underscores_set[OF t] assms(2) have "c = CHR ''_'' \<or> c \<in> set t" by auto
  moreover from split_sign_set[OF sp] have "set t \<subseteq> {CHR ''-'', CHR ''+''} \<union> set body" .
  ultimately have "c = CHR ''_'' \<or> c = CHR ''-'' \<or> c = CHR ''+'' \<or> c \<in> set body" by auto
  then show ?thesis using body by auto
qed

lemma re_sub_parens_id: "CHR ''('' \<notin> set s \<Longrightarrow> re_sub_parens s = s"
  by (induction s) auto

lemma remove_commas_id: "CHR '','' \<notin> set s \<Longrightarrow> remove_commas s = s"
  by (induction s) (auto simp add: remove_commas_def)

lemma py_float_sentinels: "t \<in> set sentinels \<Longrightarrow> py_float t = Inl ValueError"
  by (auto simp add: sentinels_def py_float_def strip_def isspace_def split_sign_def lower_def
      lower_char_def parse_decimal_def parse_exponent_def is_digit_def)

lemma clean_numeric_parsed:
  assumes "\<not> isna val" and "py_float (py_str repr val) = Inr v"
  shows "clean_numeric repr val = v"
proof -
  let ?t = "strip (py_str repr val)"
  have p: "py_float ?t = Inr v" using assms(2) by (simp add: py_float_strip)
  then have ns: "?t \<notin> set sentinels" using py_float_sentinels by fastforce
  have "\<And>c. c \<in> set ?t \<Longrightarrow> c \<noteq> CHR ''('' \<and> c \<noteq> CHR '',''"
    using py_float_chars[OF assms(2)] by blast
  then have "re_sub_parens ?t = ?t" "remove_commas ?t = ?t"
    using re_sub_parens_id remove_commas_id by blast+
  then show ?thesis
    using assms(1) ns p by (simp add: clean_numeric_def Let_def strip_idem)
qed

lemma of_char_natD: "(of_char c :: nat) = of_char d \<Longrightarrow> c = d"
  by (simp only: of_char_eq_iff)

lemma lower_char_n: "lower_char c = CHR ''n'' \<Longrightarrow> c = CHR ''n'' \<or> c = CHR ''N''"
  using lower_char_cases[of c "CHR ''n''"] of_char_natD[of c "CHR ''N''"] by auto

lemma lower_char_a: "lower_char c = CHR ''a'' \<Longrightarrow> c = CHR ''a'' \<or> c = CHR ''A''"
  using lower_char_cases[of c "CHR ''a''"] of_char_natD[of c "CHR ''A''"] by auto

lemma lower_char_o: "lower_char c = CHR ''o'' \<Longrightarrow> c = CHR ''o'' \<or> c = CHR ''O''"
  using lower_char_cases[of c "CHR ''o''"] of_char_natD[of c "CHR ''O''"] by auto

lemma lower_char_e: "lower_char c = CHR ''e'' \<Longrightarrow> c = CHR ''e'' \<or> c = CHR ''E''"
  using lower_char_cases[of c "CHR ''e''"] of_char_natD[of c "CHR ''E''"] by auto

lemma lower_char_dot: "lower_char c = CHR ''.'' \<Longrightarrow> c = CHR ''.''"
  using lower_char_cases[of c "CHR ''.''"] by (auto simp add: lower_char_def Let_def split: if_splits)

lemma lower_char_minus: "lower_char c = CHR ''-'' \<Longrightarrow> c = CHR ''-''"
  using lower_char_cases[of c "CHR ''-''"] by (auto simp add: lower_char_def Let_def split: if_splits)

lemmas py_float_eval = py_float_def strip_def isspace_def split_sign_def lower_def
      lower_char_def parse_decimal_def parse_exponent_def is_digit_def digits_val_def scale10_def
      char_of_eq_iff round64_eval

lemmas clean_eval = clean_numeric_def isna_def sentinels_def remove_commas_def py_float_eval

lemma lower_empty: "lower t = '''' \<Longrightarrow> py_float t = Inl ValueError"
  by (simp add: py_float_eval)

lemma lower_minus: "lower t = ''-'' \<Longrightarrow> py_float t = Inl ValueError"
  by (auto simp add: lower_def dest!: lower_char_minus) (simp_all add: py_float_eval)

lemma lower_na: "lower t = ''na'' \<Longrightarrow> py_float t = Inl ValueError"
  by (auto simp add: lower_def dest!: lower_char_n lower_char_a) (simp_all add: py_float_eval)

lemma lower_n_a: "lower t = ''n.a'' \<Longrightarrow> py_float t = Inl ValueError"
  by (auto simp add: lower_def dest!: lower_char_n lower_char_a lower_char_dot) (simp_all add: py_float_eval)

lemma lower_n_a_dot: "lower t = ''n.a.'' \<Longrightarrow> py_float t = Inl ValueError"
  by (auto simp add: lower_def dest!: lower_char_n lower_char_a lower_char_dot) (simp_all add: py_float_eval)

lemma lower_none: "lower t = ''none'' \<Longrightarrow> py_float t = Inl ValueError"
  by (auto simp add: lower_def dest!: lower_char_n lower_char_a lower_char_o lower_char_e) (simp_all add: py_float_eval)

lemma py_float_lower_sentinel:
  "lower t \<in> {'''', ''n.a.'', ''n.a'', ''na'', ''-'', ''none''} \<Longrightarrow> py_float t = Inl ValueError"
  using lower_empty lower_minus lower_na lower_n_a lower_n_a_dot lower_none by blast

lemma lower_sentinel_chars:
  assumes "lower t \<in> {'''', ''n.a.'', ''n.a'', ''na'', ''-'', ''none''}" and "c \<in> set t"
  shows "c \<noteq> CHR ''('' \<and> c \<noteq> CHR '',''"
proof -
  from assms have "lower_char c \<in> set (lower t)" by (simp add: lower_def)
  with assms(1) have "lower_char c \<noteq> CHR ''('' \<and> lower_char c \<noteq> CHR '',''" by auto
  then show ?thesis using lower_char_paren by auto
qed

lemma clean_numeric_unparsed:
  assumes "py_float (strip s) = Inl e" and "CHR ''('' \<notin> set (strip s)" and "CHR '','' \<notin> set (strip s)"
  shows "clean_numeric repr (PyStr s) = NaN"
  using assms
  by (simp add: clean_numeric_def Let_def isna_def re_sub_parens_id remove_commas_id strip_idem)

section \<open>The numeric cleaner\<close>

text \<open>
  Claim C3. Every string that, trimmed of surrounding whitespace and compared without
  regard to letter case, is one of the sentinels (the empty string, \<open>N.A.\<close>, \<open>N.A\<close>,
  \<open>NA\<close>, \<open>-\<close>, \<open>None\<close>) is cleaned to null; \<open>1,234\<close> is cleaned to 1234.0 and
  \<open>85 (S)\<close> to 85.0; and every string that \<open>float\<close> reads as a number is cleaned to
  that number, whatever sentinels it contains as substrings (\<open>-5\<close> contains the
  sentinel \<open>-\<close> and is cleaned to -5.0).
\<close>

theorem clean_numeric_sentinels_and_examples:
  "(lower (strip s) \<in> {'''', ''n.a.'', ''n.a'', ''na'', ''-'', ''none''}
      \<longrightarrow> clean_numeric repr (PyStr s) = NaN)
   \<and> clean_numeric repr (PyStr ''1,234'') = Fin 1234
   \<and> clean_numeric repr (PyStr ''85 (S)'') = Fin 85
   \<and> (py_float s = Inr (Fin q) \<longrightarrow> clean_numeric repr (PyStr s) = Fin q)"
proof (intro conjI impI)
  assume a: "lower (strip s) \<in> {'''', ''n.a.'', ''n.a'', ''na'', ''-'', ''none''}"
  from py_float_lower_sentinel[OF a] lower_sentinel_chars[OF a]
  show "clean_numeric repr (PyStr s) = NaN"
    using clean_numeric_unparsed by blast
next
  show "clean_numeric repr (PyStr ''1,234'') = Fin 1234"
    by (simp add: clean_eval)
next
  show "clean_numeric repr (PyStr ''85 (S)'') = Fin 85"
    by (simp add: clean_eval)
next
  assume "py_float s = Inr (Fin q)"
  then show "clean_numeric repr (PyStr s) = Fin q"
    using clean_numeric_parsed[of "PyStr s" repr "Fin q"] by (simp add: isna_def)
qed

theorem clean_numeric_sentinels_and_examples_witness:
  "lower (strip ''  nOnE '') = ''none''
   \<and> clean_numeric (\<lambda>q. '''') (PyStr ''  nOnE '') = NaN
   \<and> py_float ''-5'' = Inr (Fin (- 5))
   \<and> clean_numeric (\<lambda>q. '''') (PyStr ''-5'') = Fin (- 5)"
  using clean_numeric_sentinels_and_examples[of "''  nOnE ''" "\<lambda>q. ''''"]
    clean_numeric_sentinels_and_examples[of "''-5''" "\<lambda>q. ''''" "- 5"]
  by (simp add: py_float_eval)

text \<open>
  Claim C4. Cleaning is idempotent: cleaning the value that cleaning produced gives
  that value again. For a finite float the source goes through \<open>str\<close> and \<open>float\<close>;
  the hypothesis is Python's guarantee that \<open>float(repr(v)) == v\<close> for the float
  \<open>v\<close> produced. For \<open>nan\<close>, \<open>inf\<close> and \<open>-inf\<close> nothing is assumed.
\<close>

theorem clean_numeric_idempotent:
  assumes "\<And>q. clean_numeric repr x = Fin q \<Longrightarrow> py_float (repr q) = Inr (Fin q)"
  shows "clean_numeric repr (PyFloat (clean_numeric repr x)) = clean_numeric repr x"
proof (cases "clean_numeric repr x")
  case (Fin q)
  from assms[OF Fin] show ?thesis
    using clean_numeric_parsed[of "PyFloat (Fin q)" repr "Fin q"] Fin by (simp add: isna_def)
next
  case PInf
  then show ?thesis by (simp add: clean_eval)
next
  case NInf
  then show ?thesis by (simp add: clean_eval)
next
  case NaN
  then show ?thesis by (simp add: clean_numeric_def isna_def)
qed

theorem clean_numeric_idempotent_witness:
  "clean_numeric (\<lambda>q. ''85.0'') (PyStr ''85 (S)'') = Fin 85
   \<and> py_float ''85.0'' = Inr (Fin 85)
   \<and> clean_numeric (\<lambda>q. ''85.0'') (PyFloat (Fin 85)) = Fin 85"
  using clean_numeric_idempotent[of "\<lambda>q. ''85.0''" "PyStr ''85 (S)''"]
  by (simp add: clean_eval)

section \<open>Properties of the table operations\<close>

lemma err_bind_Inr [simp]: "err_bind (Inr x) f = f x"
  by (simp add: err_bind_def)

lemma err_bind_Inl [simp]: "err_bind (Inl e) f = Inl e"
  by (simp add: err_bind_def)

lemma float_of_PyFloat [simp]: "float_of (PyFloat f) = f"
  by (simp add: float_of_def)

lemma map_rows_total:
  "(\<And>r. r \<in> set rs \<Longrightarrow> f r = Inr (g r)) \<Longrightarrow> map_rows f rs = Inr (map g rs)"
  by (induction rs) simp_all

lemma assign_total:
  assumes "\<And>r. r \<in> set (rows df) \<Longrightarrow> f r = Inr (g r)"
  shows "assign df c f =
           Inr \<lparr>columns = add_column c (columns df), rows = map (\<lambda>r. r(c := g r)) (rows df)\<rparr>"
proof -
  have "map_rows (\<lambda>r. err_bind (f r) (\<lambda>v. Inr (r(c := v)))) (rows df)
          = Inr (map (\<lambda>r. r(c := g r)) (rows df))"
    by (rule map_rows_total) (simp add: assms)
  then show ?thesis by (simp add: assign_def)
qed

lemma add_column_set [simp]: "set (add_column c cols) = insert c (set cols)"
  by (auto simp add: add_column_def)

lemma add_column_member [simp]: "c \<in> set cols \<Longrightarrow> add_column c cols = cols"
  by (simp add: add_column_def)

lemma convert_date_present:
  assumes "c \<in> set (columns df)"
    and "to_datetime_coerce parse (map (\<lambda>r'. r' c) (rows df)) = Inr conv"
  shows "convert_date parse c df =
           Inr \<lparr>columns = columns df, rows = map (\<lambda>r. r(c := conv (r c))) (rows df)\<rparr>"
  unfolding convert_date_def
  using assms by (simp add: assign_total[where g = "\<lambda>r. conv (r c)"] cell_def)

lemma convert_date_absent: "c \<notin> set (columns df) \<Longrightarrow> convert_date parse c df = Inr df"
  by (simp add: convert_date_def)

lemma convert_date_raises:
  "c \<in> set (columns df) \<Longrightarrow> parse (map (\<lambda>r'. r' c) (rows df)) = Inl e \<Longrightarrow>
   convert_date parse c df = Inl e"
  by (simp add: convert_date_def to_datetime_coerce_def)

lemma to_datetime_coerce_is_datetime:
  "to_datetime_coerce parse col = Inr conv \<Longrightarrow> is_datetime (conv v)"
  by (auto simp add: to_datetime_coerce_def coerce_def is_datetime_def
      split: sum.splits option.splits)

lemma to_datetime_returns_coerce:
  "to_datetime_returns parse c df \<Longrightarrow>
   \<exists>conv. (c \<in> set (columns df) \<longrightarrow>
             to_datetime_coerce parse (map (\<lambda>r'. r' c) (rows df)) = Inr conv)"
  by (cases "parse (map (\<lambda>r'. r' c) (rows df))")
     (auto simp add: to_datetime_returns_def to_datetime_coerce_def)

lemma clean_row_Nil [simp]: "clean_row repr [] r = r"
  by (simp add: clean_row_def)

lemma clean_row_Cons [simp]:
  "clean_row repr (c # cs) r = clean_row repr cs (r(c := PyFloat (clean_numeric repr (r c))))"
  by (simp add: clean_row_def)

lemma clean_columns_total:
  "set cs \<subseteq> set (columns df) \<Longrightarrow>
   clean_columns repr cs df = Inr \<lparr>columns = columns df, rows = map (clean_row repr cs) (rows df)\<rparr>"
proof (induction cs arbitrary: df)
  case Nil
  then show ?case by simp
next
  case (Cons c cs)
  let ?df1 = "\<lparr>columns = columns df, rows = map (\<lambda>r. r(c := PyFloat (clean_numeric repr (r c)))) (rows df)\<rparr>"
  from Cons.prems have c: "c \<in> set (columns df)" by simp
  have "assign df c (\<lambda>r. err_bind (cell df r c) (\<lambda>v. Inr (PyFloat (clean_numeric repr v)))) = Inr ?df1"
    using c by (simp add: assign_total[where g = "\<lambda>r. PyFloat (clean_numeric repr (r c))"] cell_def)
  moreover have "clean_columns repr cs ?df1 =
     Inr \<lparr>columns = columns ?df1, rows = map (clean_row repr cs) (rows ?df1)\<rparr>"
    using Cons.prems by (intro Cons.IH) simp
  ultimately show ?case by (simp add: comp_def)
qed

lemma clean_row_other: "c \<notin> set cs \<Longrightarrow> clean_row repr cs r c = r c"
  by (induction cs arbitrary: r) auto

lemma clean_numeric_NaN [simp]: "clean_numeric repr (PyFloat NaN) = NaN"
  by (simp add: clean_numeric_def isna_def)

lemma clean_row_member:
  "c \<in> set cs \<Longrightarrow>
   \<exists>f. clean_row repr cs r c = PyFloat f \<and> (clean_numeric repr (r c) = NaN \<longrightarrow> f = NaN)"
proof (induction cs arbitrary: r)
  case Nil
  then show ?case by simp
next
  case (Cons a cs)
  let ?r' = "r(a := PyFloat (clean_numeric repr (r a)))"
  have keep: "clean_numeric repr (r c) = NaN \<Longrightarrow> clean_numeric repr (?r' c) = NaN"
    by (cases "a = c") simp_all
  show ?case
  proof (cases "c \<in> set cs")
    case True
    from Cons.IH[OF True] obtain f where
      f: "clean_row repr cs ?r' c = PyFloat f" "clean_numeric repr (?r' c) = NaN \<longrightarrow> f = NaN"
      by blast
    have "clean_row repr (a # cs) r c = PyFloat f"
      using f(1) by (simp only: clean_row_Cons)
    moreover have "clean_numeric repr (r c) = NaN \<longrightarrow> f = NaN"
      using keep f(2) by blast
    ultimately show ?thesis by blast
  next
    case False
    with Cons.prems have "a = c" by simp
    with False show ?thesis by (simp add: clean_row_other)
  qed
qed

lemma clean_row_once:
  "c \<in> set cs \<Longrightarrow> distinct cs \<Longrightarrow>
   clean_row repr cs r c = PyFloat (clean_numeric repr (r c))"
proof (induction cs arbitrary: r)
  case Nil
  then show ?case by simp
next
  case (Cons a cs)
  then show ?case by (cases "a = c") (auto simp add: clean_row_other)
qed

lemma cells_float_total:
  "(\<And>c. c \<in> set cs \<Longrightarrow> c \<in> set (columns df) \<and> (\<exists>f. r c = PyFloat f)) \<Longrightarrow>
   cells_float df r cs = Inr (map (\<lambda>c. float_of (r c)) cs)"
proof (induction cs)
  case Nil
  then show ?case by simp
next
  case (Cons c cs)
  from Cons.prems[of c] obtain f where f: "c \<in> set (columns df)" "r c = PyFloat f" by auto
  have "cells_float df r cs = Inr (map (\<lambda>c. float_of (r c)) cs)"
    using Cons.prems by (intro Cons.IH) simp
  with f show ?case by (simp add: cell_def)
qed

lemma nanmean_Nil [simp]: "nanmean [] = NaN"
  by (simp add: nanmean_def)

lemma assign_mean_total:
  assumes "set cs \<subseteq> set (columns df)"
    and "\<And>r c. r \<in> set (rows df) \<Longrightarrow> c \<in> set cs \<Longrightarrow> \<exists>f. r c = PyFloat f"
  shows "assign_mean name cs df =
           Inr \<lparr>columns = add_column name (columns df),
                rows = map (\<lambda>r. r(name := PyFloat (nanmean (map (\<lambda>c. float_of (r c)) cs)))) (rows df)\<rparr>"
proof (cases "cs = []")
  case True
  then show ?thesis
    by (simp add: assign_mean_def assign_total[where g = "\<lambda>r. PyFloat NaN"])
next
  case False
  have "\<And>r. r \<in> set (rows df) \<Longrightarrow>
          row_mean df cs r = Inr (PyFloat (nanmean (map (\<lambda>c. float_of (r c)) cs)))"
    using assms by (simp add: row_mean_def cells_float_total subset_iff)
  then show ?thesis
    using False
    by (simp add: assign_mean_def assign_total[where g = "\<lambda>r. PyFloat (nanmean (map (\<lambda>c. float_of (r c)) cs))"])
qed

lemma assign_difference_total:
  assumes "a \<in> set (columns df)" and "b \<in> set (columns df)"
    and "\<And>r. r \<in> set (rows df) \<Longrightarrow> (\<exists>f. r a = PyFloat f) \<and> (\<exists>f. r b = PyFloat f)"
  shows "assign_difference name a b df =
           Inr \<lparr>columns = add_column name (columns df),
                rows = map (\<lambda>r. r(name := PyFloat (fsub (float_of (r a)) (float_of (r b))))) (rows df)\<rparr>"
proof -
  have "\<And>r. r \<in> set (rows df) \<Longrightarrow>
          err_bind (cell df r a)
            (\<lambda>va. err_bind (cell_float va)
               (\<lambda>x. err_bind (cell df r b)
                  (\<lambda>vb. err_bind (cell_float vb)
                     (\<lambda>y. Inr (PyFloat (fsub x y))))))
          = Inr (PyFloat (fsub (float_of (r a)) (float_of (r b))))"
  proof -
    fix r assume "r \<in> set (rows df)"
    from assms(3)[OF this] obtain x y where "r a = PyFloat x" "r b = PyFloat y" by blast
    then show "err_bind (cell df r a)
            (\<lambda>va. err_bind (cell_float va)
               (\<lambda>x. err_bind (cell df r b)
                  (\<lambda>vb. err_bind (cell_float vb)
                     (\<lambda>y. Inr (PyFloat (fsub x y))))))
          = Inr (PyFloat (fsub (float_of (r a)) (float_of (r b))))"
      using assms(1,2) by (simp add: cell_def)
  qed
  then show ?thesis
    unfolding assign_difference_def
    by (rule assign_total)
qed

lemma add_injury_month_year_total:
  assumes "''Date of Injury'' \<in> set (columns df) \<Longrightarrow>
             (\<forall>r \<in> set (rows df). is_datetime (r ''Date of Injury''))"
  shows "\<exists>M Y. add_injury_month_year df =
           Inr \<lparr>columns = add_column ''Injury_Year'' (add_column ''Injury_Month'' (columns df)),
                rows = map (\<lambda>r. r(''Injury_Month'' := M r, ''Injury_Year'' := Y r)) (rows df)\<rparr>
         \<and> (\<forall>r. r ''Date of Injury'' = PyNaT \<or> ''Date of Injury'' \<notin> set (columns df) \<longrightarrow> M r = PyFloat NaN)"
proof (cases "''Date of Injury'' \<in> set (columns df)")
  case True
  let ?col = "map (\<lambda>r. r ''Date of Injury'') (rows df)"
  let ?M = "\<lambda>r::row. case r ''Date of Injury'' of PyTimestamp t \<Rightarrow> PyStr (month_name (ts_month t)) | _ \<Rightarrow> PyFloat NaN"
  let ?Y = "\<lambda>r::row. case r ''Date of Injury'' of
                  PyTimestamp t \<Rightarrow>
                    if PyNaT \<in> set ?col then PyFloat (round64 (of_int (ts_year t)))
                    else PyInt (ts_year t)
                | _ \<Rightarrow> PyFloat NaN"
  from assms[OF True] have dt: "list_all is_datetime ?col"
    by (simp add: list_all_iff)
  let ?df1 = "\<lparr>columns = add_column ''Injury_Month'' (columns df),
                rows = map (\<lambda>r. r(''Injury_Month'' := ?M r)) (rows df)\<rparr>"
  have s1: "assign df ''Injury_Month''
              (\<lambda>r. err_bind (cell df r ''Date of Injury'') (dt_month_name ?col)) = Inr ?df1"
    by (rule assign_total) (simp add: cell_def True dt_month_name_def dt)
  have s2: "assign ?df1 ''Injury_Year''
              (\<lambda>r. err_bind (cell ?df1 r ''Date of Injury'') (dt_year ?col))
            = Inr \<lparr>columns = add_column ''Injury_Year'' (columns ?df1),
                   rows = map (\<lambda>r. r(''Injury_Year'' := ?Y r)) (rows ?df1)\<rparr>"
    by (rule assign_total) (auto simp add: cell_def True dt_year_def dt)
  have "add_injury_month_year df =
           Inr \<lparr>columns = add_column ''Injury_Year'' (add_column ''Injury_Month'' (columns df)),
                rows = map (\<lambda>r. r(''Injury_Month'' := ?M r, ''Injury_Year'' := ?Y r)) (rows df)\<rparr>"
    unfolding add_injury_month_year_def Let_def using True s1 s2
    by (simp add: comp_def)
  moreover have "\<forall>r. r ''Date of Injury'' = PyNaT \<or> ''Date of Injury'' \<notin> set (columns df) \<longrightarrow> ?M r = PyFloat NaN"
    using True by simp
  ultimately show ?thesis
    by (intro exI[of _ "?M"] exI[of _ "?Y"] conjI)
next
  case False
  let ?df1 = "\<lparr>columns = add_column ''Injury_Month'' (columns df),
                rows = map (\<lambda>r. r(''Injury_Month'' := PyFloat NaN)) (rows df)\<rparr>"
  have s1: "assign df ''Injury_Month'' (\<lambda>r. Inr (PyFloat NaN)) = Inr ?df1"
    by (rule assign_total) simp
  have s2: "assign ?df1 ''Injury_Year'' (\<lambda>r. Inr (PyFloat NaN))
            = Inr \<lparr>columns = add_column ''Injury_Year'' (columns ?df1),
                   rows = map (\<lambda>r. r(''Injury_Year'' := PyFloat NaN)) (rows ?df1)\<rparr>"
    by (rule assign_total) simp
  have "add_injury_month_year df =
           Inr \<lparr>columns = add_column ''Injury_Year'' (add_column ''Injury_Month'' (columns df)),
                rows = map (\<lambda>r. r(''Injury_Month'' := (\<lambda>r. PyFloat NaN) r, ''Injury_Year'' := (\<lambda>r. PyFloat NaN) r)) (rows df)\<rparr>"
    unfolding add_injury_month_year_def using False s1 s2
    by (simp add: comp_def)
  then show ?thesis
    by (intro exI[of _ "\<lambda>r. PyFloat NaN"] conjI) simp_all
qed

lemma numeric_label_fresh:
  assumes "str_contains ''Player_rating'' c \<or> endswith c ''_GD''"
  shows "c \<notin> set [''Date of Injury'', ''Date of return'', ''Player_Name'', ''Team'',
                  ''FIFA_Rating'', ''Name'', ''Team Name'', ''FIFA rating'', ''Injury_Month'',
                  ''Injury_Year'', ''avg_rating_before'', ''avg_rating_after'', ''rating_change'',
                  ''team_gd_before'', ''team_gd_missed'', ''performance_drop_index'']"
  using assms by (auto simp add: endswith_def)

lemma filter_add_column: "\<not> P c \<Longrightarrow> filter P (add_column c cols) = filter P cols"
  by (simp add: add_column_def)

lemma rename_label_eq_iff:
  "c \<notin> set [''Player_Name'', ''Team'', ''FIFA_Rating'', ''Name'', ''Team Name'', ''FIFA rating''] \<Longrightarrow>
   rename_label c' = c \<longleftrightarrow> c' = c"
  by (auto simp add: rename_label_def)

lemma rename_row_other:
  "c \<notin> set [''Player_Name'', ''Team'', ''FIFA_Rating''] \<Longrightarrow> rename_row cols r c = r c"
  by (auto simp add: rename_row_def)

lemma clean_row_count1:
  "count_list cs c = 1 \<Longrightarrow> clean_row repr cs r c = PyFloat (clean_numeric repr (r c))"
proof (induction cs arbitrary: r)
  case Nil
  then show ?case by simp
next
  case (Cons a cs)
  show ?case
  proof (cases "a = c")
    case True
    with Cons.prems have "count_list cs c = 0" by simp
    then have "c \<notin> set cs" by (simp add: count_list_0_iff)
    with True show ?thesis by (simp add: clean_row_other)
  next
    case False
    with Cons.prems have "count_list cs c = 1" by simp
    from Cons.IH[OF this] False show ?thesis by simp
  qed
qed

lemma rename_label_mem:
  assumes "c \<notin> set [''Player_Name'', ''Team'', ''FIFA_Rating'', ''Name'', ''Team Name'', ''FIFA rating'']"
  shows "c \<in> set (map rename_label cols) \<longleftrightarrow> c \<in> set cols"
proof (induction cols)
  case Nil
  then show ?case by simp
next
  case (Cons a cols)
  have "rename_label a = c \<longleftrightarrow> a = c"
    using assms by (rule rename_label_eq_iff)
  with Cons show ?case by auto
qed

lemma load_data_prepare:
  fixes df0 :: dataframe
  assumes aI: "''Date of Injury'' \<in> set (columns df0) \<longrightarrow>
      to_datetime_coerce parse (map (\<lambda>r'. r' ''Date of Injury'') (rows df0)) = Inr convI"
    and aR: "''Date of return'' \<in> set (columns df0) \<longrightarrow>
      to_datetime_coerce parse (map (\<lambda>r'. r' ''Date of return'') (rows df0)) = Inr convR"
  shows "\<exists>M Y.
    err_bind (convert_date parse ''Date of Injury'' df0) (\<lambda>df1.
    err_bind (convert_date parse ''Date of return'' df1) (\<lambda>df2.
      add_injury_month_year (rename_columns df2)))
    = Inr \<lparr>columns = add_column ''Injury_Year'' (add_column ''Injury_Month'' (map rename_label (columns df0))),
           rows = map (\<lambda>r0.
             (rename_row (columns df0)
               ((if ''Date of return'' \<in> set (columns df0)
                 then (\<lambda>r. r(''Date of return'' := convR (r ''Date of return'')))
                 else (\<lambda>r. r))
                ((if ''Date of Injury'' \<in> set (columns df0)
                  then (\<lambda>r. r(''Date of Injury'' := convI (r ''Date of Injury'')))
                  else (\<lambda>r. r)) r0)))
              (''Injury_Month'' := M r0, ''Injury_Year'' := Y r0)) (rows df0)\<rparr>
    \<and> (\<forall>r0. ''Date of Injury'' \<notin> set (columns df0)
              \<or> convI (r0 ''Date of Injury'') = PyNaT
            \<longrightarrow> M r0 = PyFloat NaN)"
proof -
  let ?C0 = "columns df0"
  let ?colI = "map (\<lambda>r'. r' ''Date of Injury'') (rows df0)"
  let ?colR = "map (\<lambda>r'. r' ''Date of return'') (rows df0)"
  define h1 :: "row \<Rightarrow> row" where "h1 =
     (if ''Date of Injury'' \<in> set ?C0
      then (\<lambda>r. r(''Date of Injury'' := convI (r ''Date of Injury'')))
      else (\<lambda>r. r))"
  define h2 :: "row \<Rightarrow> row" where "h2 =
     (if ''Date of return'' \<in> set ?C0
      then (\<lambda>r. r(''Date of return'' := convR (r ''Date of return'')))
      else (\<lambda>r. r))"
  define df1 where "df1 = \<lparr>columns = ?C0, rows = map h1 (rows df0)\<rparr>"
  define df2 where "df2 = \<lparr>columns = ?C0, rows = map h2 (rows df1)\<rparr>"
  have s1: "convert_date parse ''Date of Injury'' df0 = Inr df1"
  proof (cases "''Date of Injury'' \<in> set ?C0")
    case True
    with aI have "to_datetime_coerce parse ?colI = Inr convI" by blast
    from convert_date_present[OF True this] True show ?thesis
      by (simp add: df1_def h1_def)
  next
    case False
    then show ?thesis by (simp add: convert_date_absent df1_def h1_def)
  qed
  have cols1: "columns df1 = ?C0" by (simp add: df1_def)
  have h1_R: "\<And>r. h1 r ''Date of return'' = r ''Date of return''"
    by (simp add: h1_def)
  have colR1: "map (\<lambda>r'. r' ''Date of return'') (rows df1) = ?colR"
    by (simp add: df1_def h1_R)
  have s2: "convert_date parse ''Date of return'' df1 = Inr df2"
  proof (cases "''Date of return'' \<in> set ?C0")
    case True
    then have m: "''Date of return'' \<in> set (columns df1)" by (simp add: cols1)
    from aR True have "to_datetime_coerce parse ?colR = Inr convR" by blast
    then have "to_datetime_coerce parse (map (\<lambda>r'. r' ''Date of return'') (rows df1)) = Inr convR"
      by (simp only: colR1)
    from convert_date_present[OF m this] True show ?thesis
      by (simp add: df2_def h2_def cols1)
  next
    case False
    then have "''Date of return'' \<notin> set (columns df1)" by (simp add: cols1)
    then have "convert_date parse ''Date of return'' df1 = Inr df1"
      by (rule convert_date_absent)
    with False show ?thesis by (simp add: df2_def h2_def df1_def)
  qed
  have h1_I: "''Date of Injury'' \<in> set ?C0 \<Longrightarrow> is_datetime (h1 r ''Date of Injury'')" for r
  proof -
    assume i: "''Date of Injury'' \<in> set ?C0"
    with aI have "to_datetime_coerce parse ?colI = Inr convI" by blast
    from to_datetime_coerce_is_datetime[OF this] i show ?thesis
      by (simp add: h1_def)
  qed
  have h2_I: "\<And>r. h2 r ''Date of Injury'' = r ''Date of Injury''"
    by (simp add: h2_def)
  have cols_r: "columns (rename_columns df2) = map rename_label ?C0"
    by (simp add: rename_columns_def df2_def)
  have rows_r: "rows (rename_columns df2) = map (\<lambda>r0. rename_row ?C0 (h2 (h1 r0))) (rows df0)"
    by (simp add: rename_columns_def df2_def df1_def)
  have mem: "''Date of Injury'' \<in> set (map rename_label ?C0) \<longleftrightarrow> ''Date of Injury'' \<in> set ?C0"
    by (rule rename_label_mem) simp
  have rr_I: "\<And>r. rename_row ?C0 r ''Date of Injury'' = r ''Date of Injury''"
    by (simp add: rename_row_other)
  have pre: "''Date of Injury'' \<in> set (columns (rename_columns df2)) \<Longrightarrow>
          (\<forall>r \<in> set (rows (rename_columns df2)). is_datetime (r ''Date of Injury''))"
  proof -
    assume "''Date of Injury'' \<in> set (columns (rename_columns df2))"
    then have i: "''Date of Injury'' \<in> set ?C0" using mem by (simp only: cols_r)
    show "\<forall>r \<in> set (rows (rename_columns df2)). is_datetime (r ''Date of Injury'')"
      unfolding rows_r using h1_I[OF i] by (simp add: rr_I h2_I)
  qed
  from add_injury_month_year_total[OF pre] obtain M Y where
    s3: "add_injury_month_year (rename_columns df2) =
           Inr \<lparr>columns = add_column ''Injury_Year'' (add_column ''Injury_Month'' (columns (rename_columns df2))),
                rows = map (\<lambda>r. r(''Injury_Month'' := M r, ''Injury_Year'' := Y r)) (rows (rename_columns df2))\<rparr>"
    and mnan: "\<forall>r. r ''Date of Injury'' = PyNaT \<or> ''Date of Injury'' \<notin> set (columns (rename_columns df2)) \<longrightarrow> M r = PyFloat NaN"
    by blast
  let ?M = "\<lambda>r0. M (rename_row ?C0 (h2 (h1 r0)))"
  let ?Y = "\<lambda>r0. Y (rename_row ?C0 (h2 (h1 r0)))"
  have eq: "err_bind (convert_date parse ''Date of Injury'' df0) (\<lambda>df1.
    err_bind (convert_date parse ''Date of return'' df1) (\<lambda>df2.
      add_injury_month_year (rename_columns df2)))
    = Inr \<lparr>columns = add_column ''Injury_Year'' (add_column ''Injury_Month'' (map rename_label ?C0)),
           rows = map (\<lambda>r0. (rename_row ?C0 (h2 (h1 r0)))(''Injury_Month'' := ?M r0, ''Injury_Year'' := ?Y r0)) (rows df0)\<rparr>"
    by (simp add: s1 s2 s3 cols_r rows_r comp_def)
  have nanI: "\<forall>r0. ''Date of Injury'' \<notin> set ?C0
              \<or> convI (r0 ''Date of Injury'') = PyNaT
            \<longrightarrow> ?M r0 = PyFloat NaN"
  proof (intro allI impI)
    fix r0
    assume a: "''Date of Injury'' \<notin> set ?C0 \<or> convI (r0 ''Date of Injury'') = PyNaT"
    have "rename_row ?C0 (h2 (h1 r0)) ''Date of Injury'' = h1 r0 ''Date of Injury''"
      by (simp add: rr_I h2_I)
    moreover have "''Date of Injury'' \<in> set ?C0 \<Longrightarrow>
        h1 r0 ''Date of Injury'' = convI (r0 ''Date of Injury'')"
      by (simp add: h1_def)
    moreover have "''Date of Injury'' \<notin> set ?C0 \<Longrightarrow>
        ''Date of Injury'' \<notin> set (columns (rename_columns df2))"
      using mem cols_r by metis
    ultimately have "rename_row ?C0 (h2 (h1 r0)) ''Date of Injury'' = PyNaT
                 \<or> ''Date of Injury'' \<notin> set (columns (rename_columns df2))"
      using a by metis
    with mnan show "?M r0 = PyFloat NaN" by blast
  qed
  show ?thesis
    apply (rule exI[of _ "?M"])
    apply (rule exI[of _ "?Y"])
    using eq nanI unfolding h1_def h2_def by blast
qed

lemma load_data_numeric:
  fixes df3 :: dataframe and repr :: "rat \<Rightarrow> string"
  defines "R \<equiv> rating_cols df3" and "G \<equiv> gd_cols df3"
  shows "\<exists>N.
    err_bind (clean_columns repr (R @ G) df3) (\<lambda>df4.
     err_bind (assign_mean ''avg_rating_before'' (filter has_before R) df4) (\<lambda>df5.
     err_bind (assign_mean ''avg_rating_after'' (filter has_after R) df5) (\<lambda>df6.
     err_bind (assign_difference ''rating_change'' ''avg_rating_after'' ''avg_rating_before'' df6) (\<lambda>df7.
     err_bind (assign_mean ''team_gd_before'' (filter has_before G) df7) (\<lambda>df8.
     err_bind (assign_mean ''team_gd_missed'' (filter has_missed G) df8) (\<lambda>df9.
     assign_difference ''performance_drop_index'' ''team_gd_before'' ''team_gd_missed'' df9))))))
    = Inr \<lparr>columns =
              add_column ''performance_drop_index'' (add_column ''team_gd_missed''
                (add_column ''team_gd_before'' (add_column ''rating_change''
                  (add_column ''avg_rating_after'' (add_column ''avg_rating_before'' (columns df3)))))),
           rows = map N (rows df3)\<rparr>
    \<and> (\<forall>r3 c. c \<in> set (R @ G) \<longrightarrow> N r3 c = clean_row repr (R @ G) r3 c)
    \<and> (\<forall>r3 c. c \<notin> set (R @ G) \<and>
                c \<notin> set [''avg_rating_before'', ''avg_rating_after'', ''rating_change'',
                           ''team_gd_before'', ''team_gd_missed'', ''performance_drop_index'']
              \<longrightarrow> N r3 c = r3 c)
    \<and> (\<forall>r3. N r3 ''avg_rating_before'' = PyFloat (nanmean (map (\<lambda>c. float_of (N r3 c)) (filter has_before R))))
    \<and> (\<forall>r3. N r3 ''avg_rating_after'' = PyFloat (nanmean (map (\<lambda>c. float_of (N r3 c)) (filter has_after R))))
    \<and> (\<forall>r3. N r3 ''rating_change'' =
              PyFloat (fsub (float_of (N r3 ''avg_rating_after'')) (float_of (N r3 ''avg_rating_before''))))
    \<and> (\<forall>r3. N r3 ''team_gd_before'' = PyFloat (nanmean (map (\<lambda>c. float_of (N r3 c)) (filter has_before G))))
    \<and> (\<forall>r3. N r3 ''team_gd_missed'' = PyFloat (nanmean (map (\<lambda>c. float_of (N r3 c)) (filter has_missed G))))
    \<and> (\<forall>r3. N r3 ''performance_drop_index'' =
              PyFloat (fsub (float_of (N r3 ''team_gd_before'')) (float_of (N r3 ''team_gd_missed''))))"
proof -
  let ?C3 = "columns df3"
  have RG: "set (R @ G) \<subseteq> set ?C3"
    by (auto simp add: R_def G_def rating_cols_def gd_cols_def)
  have fresh: "\<And>c. c \<in> set (R @ G) \<Longrightarrow>
      c \<notin> set [''Date of Injury'', ''Date of return'', ''Player_Name'', ''Team'',
                  ''FIFA_Rating'', ''Name'', ''Team Name'', ''FIFA rating'', ''Injury_Month'',
                  ''Injury_Year'', ''avg_rating_before'', ''avg_rating_after'', ''rating_change'',
                  ''team_gd_before'', ''team_gd_missed'', ''performance_drop_index'']"
    by (rule numeric_label_fresh) (auto simp add: R_def G_def rating_cols_def gd_cols_def)
  define u4 where "u4 = clean_row repr (R @ G)"
  define u5 where "u5 = (\<lambda>r::row. r(''avg_rating_before'' := PyFloat (nanmean (map (\<lambda>c. float_of (r c)) (filter has_before R)))))"
  define u6 where "u6 = (\<lambda>r::row. r(''avg_rating_after'' := PyFloat (nanmean (map (\<lambda>c. float_of (r c)) (filter has_after R)))))"
  define u7 where "u7 = (\<lambda>r::row. r(''rating_change'' := PyFloat (fsub (float_of (r ''avg_rating_after'')) (float_of (r ''avg_rating_before'')))))"
  define u8 where "u8 = (\<lambda>r::row. r(''team_gd_before'' := PyFloat (nanmean (map (\<lambda>c. float_of (r c)) (filter has_before G)))))"
  define u9 where "u9 = (\<lambda>r::row. r(''team_gd_missed'' := PyFloat (nanmean (map (\<lambda>c. float_of (r c)) (filter has_missed G)))))"
  define u10 where "u10 = (\<lambda>r::row. r(''performance_drop_index'' := PyFloat (fsub (float_of (r ''team_gd_before'')) (float_of (r ''team_gd_missed'')))))"
  define df4 where "df4 = \<lparr>columns = ?C3, rows = map u4 (rows df3)\<rparr>"
  define df5 where "df5 = \<lparr>columns = add_column ''avg_rating_before'' (columns df4), rows = map u5 (rows df4)\<rparr>"
  define df6 where "df6 = \<lparr>columns = add_column ''avg_rating_after'' (columns df5), rows = map u6 (rows df5)\<rparr>"
  define df7 where "df7 = \<lparr>columns = add_column ''rating_change'' (columns df6), rows = map u7 (rows df6)\<rparr>"
  define df8 where "df8 = \<lparr>columns = add_column ''team_gd_before'' (columns df7), rows = map u8 (rows df7)\<rparr>"
  define df9 where "df9 = \<lparr>columns = add_column ''team_gd_missed'' (columns df8), rows = map u9 (rows df8)\<rparr>"
  define df10 where "df10 = \<lparr>columns = add_column ''performance_drop_index'' (columns df9), rows = map u10 (rows df9)\<rparr>"
  have u4_float: "\<And>r c. c \<in> set (R @ G) \<Longrightarrow> \<exists>f. u4 r c = PyFloat f"
    unfolding u4_def using clean_row_member by blast
  have u5_keep: "\<And>r c. c \<noteq> ''avg_rating_before'' \<Longrightarrow> u5 r c = r c" by (simp add: u5_def)
  have u6_keep: "\<And>r c. c \<noteq> ''avg_rating_after'' \<Longrightarrow> u6 r c = r c" by (simp add: u6_def)
  have u7_keep: "\<And>r c. c \<noteq> ''rating_change'' \<Longrightarrow> u7 r c = r c" by (simp add: u7_def)
  have u8_keep: "\<And>r c. c \<noteq> ''team_gd_before'' \<Longrightarrow> u8 r c = r c" by (simp add: u8_def)
  have u9_keep: "\<And>r c. c \<noteq> ''team_gd_missed'' \<Longrightarrow> u9 r c = r c" by (simp add: u9_def)
  have u10_keep: "\<And>r c. c \<noteq> ''performance_drop_index'' \<Longrightarrow> u10 r c = r c" by (simp add: u10_def)
  have s4: "clean_columns repr (R @ G) df3 = Inr df4"
    unfolding df4_def u4_def using RG by (rule clean_columns_total)
  have s5: "assign_mean ''avg_rating_before'' (filter has_before R) df4 = Inr df5"
    unfolding df5_def u5_def
  proof (rule assign_mean_total)
    show "set (filter has_before R) \<subseteq> set (columns df4)"
      using RG by (auto simp add: df4_def)
    show "\<And>r c. r \<in> set (rows df4) \<Longrightarrow> c \<in> set (filter has_before R) \<Longrightarrow> \<exists>f. r c = PyFloat f"
      using u4_float by (auto simp add: df4_def)
  qed
  have in_R: "\<And>c P. c \<in> set (filter P R) \<Longrightarrow> c \<in> set (R @ G)" by simp
  have in_G: "\<And>c P. c \<in> set (filter P G) \<Longrightarrow> c \<in> set (R @ G)" by simp
  have ne: "\<And>c. c \<in> set (R @ G) \<Longrightarrow>
      c \<noteq> ''avg_rating_before'' \<and> c \<noteq> ''avg_rating_after'' \<and> c \<noteq> ''rating_change''
      \<and> c \<noteq> ''team_gd_before'' \<and> c \<noteq> ''team_gd_missed'' \<and> c \<noteq> ''performance_drop_index''"
  proof -
    fix c assume "c \<in> set (R @ G)"
    from fresh[OF this] show "c \<noteq> ''avg_rating_before'' \<and> c \<noteq> ''avg_rating_after'' \<and> c \<noteq> ''rating_change''
      \<and> c \<noteq> ''team_gd_before'' \<and> c \<noteq> ''team_gd_missed'' \<and> c \<noteq> ''performance_drop_index''"
      by (simp del: set_append)
  qed
  have k5: "\<And>r c. c \<in> set (R @ G) \<Longrightarrow> u5 r c = r c"
    using ne u5_keep by blast
  have k6: "\<And>r c. c \<in> set (R @ G) \<Longrightarrow> u6 r c = r c"
    using ne u6_keep by blast
  have k7: "\<And>r c. c \<in> set (R @ G) \<Longrightarrow> u7 r c = r c"
    using ne u7_keep by blast
  have k8: "\<And>r c. c \<in> set (R @ G) \<Longrightarrow> u8 r c = r c"
    using ne u8_keep by blast
  have k9: "\<And>r c. c \<in> set (R @ G) \<Longrightarrow> u9 r c = r c"
    using ne u9_keep by blast
  have k10: "\<And>r c. c \<in> set (R @ G) \<Longrightarrow> u10 r c = r c"
    using ne u10_keep by blast
  have s6: "assign_mean ''avg_rating_after'' (filter has_after R) df5 = Inr df6"
    unfolding df6_def u6_def
  proof (rule assign_mean_total)
    show "set (filter has_after R) \<subseteq> set (columns df5)"
      using RG by (auto simp add: df4_def df5_def)
    show "\<And>r c. r \<in> set (rows df5) \<Longrightarrow> c \<in> set (filter has_after R) \<Longrightarrow> \<exists>f. r c = PyFloat f"
      using u4_float k5 in_R by (auto simp add: df4_def df5_def)
  qed
  have s7: "assign_difference ''rating_change'' ''avg_rating_after'' ''avg_rating_before'' df6 = Inr df7"
    unfolding df7_def u7_def
  proof (rule assign_difference_total)
    show "''avg_rating_after'' \<in> set (columns df6)" by (simp add: df6_def)
    show "''avg_rating_before'' \<in> set (columns df6)" by (simp add: df6_def df5_def)
    show "\<And>r. r \<in> set (rows df6) \<Longrightarrow>
            (\<exists>f. r ''avg_rating_after'' = PyFloat f) \<and> (\<exists>f. r ''avg_rating_before'' = PyFloat f)"
      by (auto simp add: df6_def df5_def u6_def u5_def)
  qed
  have s8: "assign_mean ''team_gd_before'' (filter has_before G) df7 = Inr df8"
    unfolding df8_def u8_def
  proof (rule assign_mean_total)
    show "set (filter has_before G) \<subseteq> set (columns df7)"
      using RG by (auto simp add: df4_def df5_def df6_def df7_def)
    show "\<And>r c. r \<in> set (rows df7) \<Longrightarrow> c \<in> set (filter has_before G) \<Longrightarrow> \<exists>f. r c = PyFloat f"
      using u4_float k5 k6 k7 in_G by (auto simp add: df4_def df5_def df6_def df7_def)
  qed
  have s9: "assign_mean ''team_gd_missed'' (filter has_missed G) df8 = Inr df9"
    unfolding df9_def u9_def
  proof (rule assign_mean_total)
    show "set (filter has_missed G) \<subseteq> set (columns df8)"
      using RG by (auto simp add: df4_def df5_def df6_def df7_def df8_def)
    show "\<And>r c. r \<in> set (rows df8) \<Longrightarrow> c \<in> set (filter has_missed G) \<Longrightarrow> \<exists>f. r c = PyFloat f"
      using u4_float k5 k6 k7 k8 in_G by (auto simp add: df4_def df5_def df6_def df7_def df8_def)
  qed
  have s10: "assign_difference ''performance_drop_index'' ''team_gd_before'' ''team_gd_missed'' df9 = Inr df10"
    unfolding df10_def u10_def
  proof (rule assign_difference_total)
    show "''team_gd_before'' \<in> set (columns df9)" by (simp add: df9_def df8_def)
    show "''team_gd_missed'' \<in> set (columns df9)" by (simp add: df9_def)
    show "\<And>r. r \<in> set (rows df9) \<Longrightarrow>
            (\<exists>f. r ''team_gd_before'' = PyFloat f) \<and> (\<exists>f. r ''team_gd_missed'' = PyFloat f)"
      by (auto simp add: df9_def df8_def u9_def u8_def)
  qed
  define N where "N = (\<lambda>r. u10 (u9 (u8 (u7 (u6 (u5 (u4 r)))))))"
  have whole: "err_bind (clean_columns repr (R @ G) df3) (\<lambda>df4.
     err_bind (assign_mean ''avg_rating_before'' (filter has_before R) df4) (\<lambda>df5.
     err_bind (assign_mean ''avg_rating_after'' (filter has_after R) df5) (\<lambda>df6.
     err_bind (assign_difference ''rating_change'' ''avg_rating_after'' ''avg_rating_before'' df6) (\<lambda>df7.
     err_bind (assign_mean ''team_gd_before'' (filter has_before G) df7) (\<lambda>df8.
     err_bind (assign_mean ''team_gd_missed'' (filter has_missed G) df8) (\<lambda>df9.
     assign_difference ''performance_drop_index'' ''team_gd_before'' ''team_gd_missed'' df9))))))
    = Inr df10"
    by (simp add: s4 s5 s6 s7 s8 s9 s10)
  have df10: "df10 = \<lparr>columns =
              add_column ''performance_drop_index'' (add_column ''team_gd_missed''
                (add_column ''team_gd_before'' (add_column ''rating_change''
                  (add_column ''avg_rating_after'' (add_column ''avg_rating_before'' (columns df3)))))),
           rows = map N (rows df3)\<rparr>"
    by (simp add: df10_def df9_def df8_def df7_def df6_def df5_def df4_def N_def comp_def)
  have N_num: "\<And>r3 c. c \<in> set (R @ G) \<Longrightarrow> N r3 c = u4 r3 c"
    by (simp only: N_def k5 k6 k7 k8 k9 k10)
  have p1: "\<forall>r3 c. c \<in> set (R @ G) \<longrightarrow> N r3 c = clean_row repr (R @ G) r3 c"
    using N_num by (simp add: u4_def)
  have p2: "\<forall>r3 c. c \<notin> set (R @ G) \<and>
                c \<notin> set [''avg_rating_before'', ''avg_rating_after'', ''rating_change'',
                           ''team_gd_before'', ''team_gd_missed'', ''performance_drop_index'']
              \<longrightarrow> N r3 c = r3 c"
    by (simp add: N_def u10_keep u9_keep u8_keep u7_keep u6_keep u5_keep u4_def clean_row_other)
  have mapR: "\<And>r3 P. map (\<lambda>c. float_of (N r3 c)) (filter P R) = map (\<lambda>c. float_of (u4 r3 c)) (filter P R)"
    by (rule map_cong) (simp_all add: N_num)
  have mapG: "\<And>r3 P. map (\<lambda>c. float_of (N r3 c)) (filter P G) = map (\<lambda>c. float_of (u4 r3 c)) (filter P G)"
    by (rule map_cong) (simp_all add: N_num)
  have p3: "\<forall>r3. N r3 ''avg_rating_before'' = PyFloat (nanmean (map (\<lambda>c. float_of (N r3 c)) (filter has_before R)))"
    unfolding mapR by (simp add: N_def u10_def u9_def u8_def u7_def u6_def u5_def)
  have mapR5: "\<And>r P. map (\<lambda>c. float_of (u5 r c)) (filter P R) = map (\<lambda>c. float_of (r c)) (filter P R)"
    by (rule map_cong) (simp_all add: k5)
  have p4: "\<forall>r3. N r3 ''avg_rating_after'' = PyFloat (nanmean (map (\<lambda>c. float_of (N r3 c)) (filter has_after R)))"
    unfolding mapR by (simp add: N_def u10_def u9_def u8_def u7_def u6_def mapR5)
  have p5: "\<forall>r3. N r3 ''rating_change'' =
              PyFloat (fsub (float_of (N r3 ''avg_rating_after'')) (float_of (N r3 ''avg_rating_before'')))"
    by (simp add: N_def u10_def u9_def u8_def u7_def)
  have mapG7: "\<And>r P. map (\<lambda>c. float_of (u7 (u6 (u5 r)) c)) (filter P G) = map (\<lambda>c. float_of (r c)) (filter P G)"
    by (rule map_cong) (simp_all add: k5 k6 k7)
  have mapG8: "\<And>r P. map (\<lambda>c. float_of (u8 (u7 (u6 (u5 r))) c)) (filter P G) = map (\<lambda>c. float_of (r c)) (filter P G)"
    by (rule map_cong) (simp_all add: k5 k6 k7 k8)
  have p6: "\<forall>r3. N r3 ''team_gd_before'' = PyFloat (nanmean (map (\<lambda>c. float_of (N r3 c)) (filter has_before G)))"
    unfolding mapG by (simp add: N_def u10_def u9_def u8_def mapG7)
  have p7: "\<forall>r3. N r3 ''team_gd_missed'' = PyFloat (nanmean (map (\<lambda>c. float_of (N r3 c)) (filter has_missed G)))"
    unfolding mapG by (simp add: N_def u10_def u9_def mapG8)
  have p8: "\<forall>r3. N r3 ''performance_drop_index'' =
              PyFloat (fsub (float_of (N r3 ''team_gd_before'')) (float_of (N r3 ''team_gd_missed'')))"
    by (simp add: N_def u10_def)
  show ?thesis
    by (intro exI[of _ N] conjI whole[unfolded df10] p1 p2 p3 p4 p5 p6 p7 p8)
qed

lemma err_bind_assoc: "err_bind (err_bind m f) g = err_bind m (\<lambda>x. err_bind (f x) g)"
  by (cases m) simp_all

lemma filter_rename_label:
  assumes "\<And>c. P (rename_label c) \<longleftrightarrow> P c" and "\<And>c. P c \<Longrightarrow> rename_label c = c"
  shows "filter P (map rename_label cols) = filter P cols"
  using assms by (induction cols) auto

lemma rating_rename: "str_contains ''Player_rating'' (rename_label c) \<longleftrightarrow> str_contains ''Player_rating'' c"
  by (simp add: rename_label_def)

lemma gd_rename: "endswith (rename_label c) ''_GD'' \<longleftrightarrow> endswith c ''_GD''"
  by (simp add: rename_label_def endswith_def)

lemma numeric_rename_id:
  "str_contains ''Player_rating'' c \<or> endswith c ''_GD'' \<Longrightarrow> rename_label c = c"
  using numeric_label_fresh[of c] by (auto simp add: rename_label_def)

lemma filter_rating_rename:
  "filter (str_contains ''Player_rating'') (map rename_label cols) = filter (str_contains ''Player_rating'') cols"
  by (rule filter_rename_label) (simp_all add: rating_rename numeric_rename_id)

lemma filter_gd_rename:
  "filter (\<lambda>c. endswith c ''_GD'') (map rename_label cols) = filter (\<lambda>c. endswith c ''_GD'') cols"
  by (rule filter_rename_label) (simp_all add: gd_rename numeric_rename_id)

lemma rating_cols_prepared:
  "filter (str_contains ''Player_rating'')
     (add_column ''performance_drop_index'' (add_column ''team_gd_missed''
                (add_column ''team_gd_before'' (add_column ''rating_change''
                  (add_column ''avg_rating_after'' (add_column ''avg_rating_before''
        (add_column ''Injury_Year'' (add_column ''Injury_Month'' (map rename_label cols)))))))))
   = filter (str_contains ''Player_rating'') cols"
  by (simp add: filter_add_column filter_rating_rename)

lemma derived_not_gd:
  "\<not> endswith ''Injury_Month'' ''_GD''" "\<not> endswith ''Injury_Year'' ''_GD''"
  "\<not> endswith ''avg_rating_before'' ''_GD''" "\<not> endswith ''avg_rating_after'' ''_GD''"
  "\<not> endswith ''rating_change'' ''_GD''" "\<not> endswith ''team_gd_before'' ''_GD''"
  "\<not> endswith ''team_gd_missed'' ''_GD''" "\<not> endswith ''performance_drop_index'' ''_GD''"
  by (simp_all add: endswith_def)

lemma gd_cols_prepared:
  "filter (\<lambda>c. endswith c ''_GD'')
     (add_column ''performance_drop_index'' (add_column ''team_gd_missed''
                (add_column ''team_gd_before'' (add_column ''rating_change''
                  (add_column ''avg_rating_after'' (add_column ''avg_rating_before''
        (add_column ''Injury_Year'' (add_column ''Injury_Month'' (map rename_label cols)))))))))
   = filter (\<lambda>c. endswith c ''_GD'') cols"
  by (simp add: filter_add_column derived_not_gd filter_gd_rename)

lemma clean_row_cong:
  "r c = r' c \<Longrightarrow> clean_row repr cs r c = clean_row repr cs r' c"
proof (induction cs arbitrary: r r')
  case Nil
  then show ?case by simp
next
  case (Cons a cs)
  have "(r(a := PyFloat (clean_numeric repr (r a)))) c = (r'(a := PyFloat (clean_numeric repr (r' a)))) c"
    using Cons.prems by (cases "a = c") simp_all
  then have "clean_row repr cs (r(a := PyFloat (clean_numeric repr (r a)))) c
           = clean_row repr cs (r'(a := PyFloat (clean_numeric repr (r' a)))) c"
    by (rule Cons.IH)
  then show ?case by simp
qed

lemma load_data_split:
  "load_data repr parse df0 =
     err_bind
       (err_bind (convert_date parse ''Date of Injury'' df0) (\<lambda>df1.
        err_bind (convert_date parse ''Date of return'' df1) (\<lambda>df2.
          add_injury_month_year (rename_columns df2))))
       (\<lambda>df3.
          err_bind (clean_columns repr (rating_cols df3 @ gd_cols df3) df3) (\<lambda>df4.
          err_bind (assign_mean ''avg_rating_before'' (filter has_before (rating_cols df3)) df4) (\<lambda>df5.
          err_bind (assign_mean ''avg_rating_after'' (filter has_after (rating_cols df3)) df5) (\<lambda>df6.
          err_bind (assign_difference ''rating_change'' ''avg_rating_after'' ''avg_rating_before'' df6) (\<lambda>df7.
          err_bind (assign_mean ''team_gd_before'' (filter has_before (gd_cols df3)) df7) (\<lambda>df8.
          err_bind (assign_mean ''team_gd_missed'' (filter has_missed (gd_cols df3)) df8) (\<lambda>df9.
          assign_difference ''performance_drop_index'' ''team_gd_before'' ''team_gd_missed'' df9)))))))"
  by (simp add: load_data_def err_bind_assoc Let_def)

lemma load_data_result:
  assumes aI: "''Date of Injury'' \<in> set (columns df0) \<longrightarrow>
      to_datetime_coerce parse (map (\<lambda>r'. r' ''Date of Injury'') (rows df0)) = Inr convI"
    and aR: "''Date of return'' \<in> set (columns df0) \<longrightarrow>
      to_datetime_coerce parse (map (\<lambda>r'. r' ''Date of return'') (rows df0)) = Inr convR"
  shows "\<exists>df H. load_data repr parse df0 = Inr df
     \<and> rows df = map H (rows df0)
     \<and> rating_cols df = rating_cols df0 \<and> gd_cols df = gd_cols df0
     \<and> (\<forall>r0 c. c \<in> set (rating_cols df0 @ gd_cols df0) \<longrightarrow>
            H r0 c = clean_row repr (rating_cols df0 @ gd_cols df0) r0 c)
     \<and> (\<forall>r0. ''Date of Injury'' \<in> set (columns df0) \<longrightarrow>
            H r0 ''Date of Injury'' =
              convI (r0 ''Date of Injury''))
     \<and> (\<forall>r0. ''Date of return'' \<in> set (columns df0) \<longrightarrow>
            H r0 ''Date of return'' =
              convR (r0 ''Date of return''))
     \<and> (\<forall>r0. ''Date of Injury'' \<notin> set (columns df0)
              \<or> convI (r0 ''Date of Injury'') = PyNaT
            \<longrightarrow> H r0 ''Injury_Month'' = PyFloat NaN)
     \<and> (\<forall>r0. H r0 ''avg_rating_before'' =
            PyFloat (nanmean (map (\<lambda>c. float_of (H r0 c)) (filter has_before (rating_cols df0)))))
     \<and> (\<forall>r0. H r0 ''avg_rating_after'' =
            PyFloat (nanmean (map (\<lambda>c. float_of (H r0 c)) (filter has_after (rating_cols df0)))))
     \<and> (\<forall>r0. H r0 ''rating_change'' =
            PyFloat (fsub (float_of (H r0 ''avg_rating_after'')) (float_of (H r0 ''avg_rating_before''))))
     \<and> (\<forall>r0. H r0 ''team_gd_before'' =
            PyFloat (nanmean (map (\<lambda>c. float_of (H r0 c)) (filter has_before (gd_cols df0)))))
     \<and> (\<forall>r0. H r0 ''team_gd_missed'' =
            PyFloat (nanmean (map (\<lambda>c. float_of (H r0 c)) (filter has_missed (gd_cols df0)))))
     \<and> (\<forall>r0. H r0 ''performance_drop_index'' =
            PyFloat (fsub (float_of (H r0 ''team_gd_before'')) (float_of (H r0 ''team_gd_missed''))))"
proof -
  let ?C0 = "columns df0"
  let ?colI = "map (\<lambda>r'. r' ''Date of Injury'') (rows df0)"
  let ?colR = "map (\<lambda>r'. r' ''Date of return'') (rows df0)"
  define h1 :: "row \<Rightarrow> row" where "h1 =
     (if ''Date of Injury'' \<in> set ?C0
      then (\<lambda>r. r(''Date of Injury'' := convI (r ''Date of Injury'')))
      else (\<lambda>r. r))"
  define h2 :: "row \<Rightarrow> row" where "h2 =
     (if ''Date of return'' \<in> set ?C0
      then (\<lambda>r. r(''Date of return'' := convR (r ''Date of return'')))
      else (\<lambda>r. r))"
  from load_data_prepare[OF aI aR] obtain M Y where
    prep: "err_bind (convert_date parse ''Date of Injury'' df0) (\<lambda>df1.
      err_bind (convert_date parse ''Date of return'' df1) (\<lambda>df2.
        add_injury_month_year (rename_columns df2)))
      = Inr \<lparr>columns = add_column ''Injury_Year'' (add_column ''Injury_Month'' (map rename_label ?C0)),
           rows = map (\<lambda>r0. (rename_row ?C0 (h2 (h1 r0)))(''Injury_Month'' := M r0, ''Injury_Year'' := Y r0)) (rows df0)\<rparr>"
    and mnan: "\<forall>r0. ''Date of Injury'' \<notin> set ?C0
              \<or> convI (r0 ''Date of Injury'') = PyNaT
            \<longrightarrow> M r0 = PyFloat NaN"
    unfolding h1_def h2_def by blast
  define P where "P = (\<lambda>r0. (rename_row ?C0 (h2 (h1 r0)))(''Injury_Month'' := M r0, ''Injury_Year'' := Y r0))"
  define df3 where "df3 = \<lparr>columns = add_column ''Injury_Year'' (add_column ''Injury_Month'' (map rename_label ?C0)),
           rows = map P (rows df0)\<rparr>"
  have prep': "err_bind (convert_date parse ''Date of Injury'' df0) (\<lambda>df1.
      err_bind (convert_date parse ''Date of return'' df1) (\<lambda>df2.
        add_injury_month_year (rename_columns df2))) = Inr df3"
    using prep by (simp only: df3_def P_def)
  let ?R = "rating_cols df3" and ?G = "gd_cols df3"
  have R3: "?R = rating_cols df0"
    by (simp add: rating_cols_def df3_def filter_add_column filter_rating_rename)
  have G3: "?G = gd_cols df0"
    by (simp add: gd_cols_def df3_def filter_add_column derived_not_gd filter_gd_rename)
  from load_data_numeric[of repr df3] obtain N where
    num: "err_bind (clean_columns repr (?R @ ?G) df3) (\<lambda>df4.
     err_bind (assign_mean ''avg_rating_before'' (filter has_before ?R) df4) (\<lambda>df5.
     err_bind (assign_mean ''avg_rating_after'' (filter has_after ?R) df5) (\<lambda>df6.
     err_bind (assign_difference ''rating_change'' ''avg_rating_after'' ''avg_rating_before'' df6) (\<lambda>df7.
     err_bind (assign_mean ''team_gd_before'' (filter has_before ?G) df7) (\<lambda>df8.
     err_bind (assign_mean ''team_gd_missed'' (filter has_missed ?G) df8) (\<lambda>df9.
     assign_difference ''performance_drop_index'' ''team_gd_before'' ''team_gd_missed'' df9))))))
    = Inr \<lparr>columns =
              add_column ''performance_drop_index'' (add_column ''team_gd_missed''
                (add_column ''team_gd_before'' (add_column ''rating_change''
                  (add_column ''avg_rating_after'' (add_column ''avg_rating_before'' (columns df3)))))),
           rows = map N (rows df3)\<rparr>"
    and n1: "\<forall>r3 c. c \<in> set (?R @ ?G) \<longrightarrow> N r3 c = clean_row repr (?R @ ?G) r3 c"
    and n2: "\<forall>r3 c. c \<notin> set (?R @ ?G) \<and>
                c \<notin> set [''avg_rating_before'', ''avg_rating_after'', ''rating_change'',
                           ''team_gd_before'', ''team_gd_missed'', ''performance_drop_index'']
              \<longrightarrow> N r3 c = r3 c"
    and n3: "\<forall>r3. N r3 ''avg_rating_before'' = PyFloat (nanmean (map (\<lambda>c. float_of (N r3 c)) (filter has_before ?R)))"
    and n4: "\<forall>r3. N r3 ''avg_rating_after'' = PyFloat (nanmean (map (\<lambda>c. float_of (N r3 c)) (filter has_after ?R)))"
    and n5: "\<forall>r3. N r3 ''rating_change'' =
              PyFloat (fsub (float_of (N r3 ''avg_rating_after'')) (float_of (N r3 ''avg_rating_before'')))"
    and n6: "\<forall>r3. N r3 ''team_gd_before'' = PyFloat (nanmean (map (\<lambda>c. float_of (N r3 c)) (filter has_before ?G)))"
    and n7: "\<forall>r3. N r3 ''team_gd_missed'' = PyFloat (nanmean (map (\<lambda>c. float_of (N r3 c)) (filter has_missed ?G)))"
    and n8: "\<forall>r3. N r3 ''performance_drop_index'' =
              PyFloat (fsub (float_of (N r3 ''team_gd_before'')) (float_of (N r3 ''team_gd_missed'')))"
    by blast
  define df where "df = \<lparr>columns =
              add_column ''performance_drop_index'' (add_column ''team_gd_missed''
                (add_column ''team_gd_before'' (add_column ''rating_change''
                  (add_column ''avg_rating_after'' (add_column ''avg_rating_before'' (columns df3)))))),
           rows = map N (rows df3)\<rparr>"
  define H where "H = (\<lambda>r0. N (P r0))"
  have c1: "load_data repr parse df0 = Inr df"
    unfolding load_data_split prep' df_def using num by simp
  have c2: "rows df = map H (rows df0)"
    by (simp add: df_def df3_def H_def comp_def)
  have c3: "rating_cols df = rating_cols df0"
    unfolding rating_cols_def df_def df3_def by (simp add: rating_cols_prepared)
  have c4: "gd_cols df = gd_cols df0"
    unfolding gd_cols_def df_def df3_def by (simp add: gd_cols_prepared)
  have fresh: "\<And>c. c \<in> set (rating_cols df0 @ gd_cols df0) \<Longrightarrow>
      c \<notin> set [''Date of Injury'', ''Date of return'', ''Player_Name'', ''Team'',
                  ''FIFA_Rating'', ''Name'', ''Team Name'', ''FIFA rating'', ''Injury_Month'',
                  ''Injury_Year'', ''avg_rating_before'', ''avg_rating_after'', ''rating_change'',
                  ''team_gd_before'', ''team_gd_missed'', ''performance_drop_index'']"
    by (rule numeric_label_fresh) (auto simp add: rating_cols_def gd_cols_def)
  have notin: "\<And>c. c \<in> set [''Date of Injury'', ''Date of return'', ''Injury_Month''] \<Longrightarrow>
      c \<notin> set (rating_cols df0 @ gd_cols df0)"
    using fresh by fastforce
  have h1_other: "\<And>r c. c \<noteq> ''Date of Injury'' \<Longrightarrow> h1 r c = r c"
    by (simp add: h1_def)
  have h2_other: "\<And>r c. c \<noteq> ''Date of return'' \<Longrightarrow> h2 r c = r c"
    by (simp add: h2_def)
  have P_num: "P r0 c = r0 c" if "c \<in> set (rating_cols df0 @ gd_cols df0)" for r0 c
  proof -
    from fresh[OF that] have ne: "c \<noteq> ''Injury_Month''" "c \<noteq> ''Injury_Year''"
      "c \<notin> set [''Player_Name'', ''Team'', ''FIFA_Rating'']"
      "c \<noteq> ''Date of return''" "c \<noteq> ''Date of Injury''"
      by (simp_all del: set_append)
    have "P r0 c = rename_row ?C0 (h2 (h1 r0)) c"
      using ne(1,2) by (simp add: P_def)
    also have "\<dots> = h2 (h1 r0) c" using ne(3) by (rule rename_row_other)
    also have "\<dots> = r0 c" using ne(4,5) by (simp add: h1_other h2_other)
    finally show ?thesis .
  qed
  have c5: "\<forall>r0 c. c \<in> set (rating_cols df0 @ gd_cols df0) \<longrightarrow>
            H r0 c = clean_row repr (rating_cols df0 @ gd_cols df0) r0 c"
  proof (intro allI impI)
    fix r0 c assume c: "c \<in> set (rating_cols df0 @ gd_cols df0)"
    then have "H r0 c = clean_row repr (rating_cols df0 @ gd_cols df0) (P r0) c"
      using n1 by (auto simp add: H_def R3 G3)
    also have "\<dots> = clean_row repr (rating_cols df0 @ gd_cols df0) r0 c"
      using P_num[OF c] by (rule clean_row_cong)
    finally show "H r0 c = clean_row repr (rating_cols df0 @ gd_cols df0) r0 c" .
  qed
  have H_I: "H r0 ''Date of Injury'' = h1 r0 ''Date of Injury''" for r0
  proof -
    have "H r0 ''Date of Injury'' = P r0 ''Date of Injury''"
      unfolding H_def using n2 notin[of "''Date of Injury''"] by (simp add: R3 G3 del: set_append)
    also have "\<dots> = h1 r0 ''Date of Injury''"
      by (simp add: P_def rename_row_other h2_other)
    finally show ?thesis .
  qed
  have H_R: "H r0 ''Date of return'' = h2 (h1 r0) ''Date of return''" for r0
  proof -
    have "H r0 ''Date of return'' = P r0 ''Date of return''"
      unfolding H_def using n2 notin[of "''Date of return''"] by (simp add: R3 G3 del: set_append)
    also have "\<dots> = h2 (h1 r0) ''Date of return''"
      by (simp add: P_def rename_row_other)
    finally show ?thesis .
  qed
  have H_M: "H r0 ''Injury_Month'' = M r0" for r0
  proof -
    have "H r0 ''Injury_Month'' = P r0 ''Injury_Month''"
      unfolding H_def using n2 notin[of "''Injury_Month''"] by (simp add: R3 G3 del: set_append)
    also have "\<dots> = M r0" by (simp add: P_def)
    finally show ?thesis .
  qed
  have c6: "\<forall>r0. ''Date of Injury'' \<in> set (columns df0) \<longrightarrow>
            H r0 ''Date of Injury'' = convI (r0 ''Date of Injury'')"
    by (simp add: H_I h1_def)
  have c7: "\<forall>r0. ''Date of return'' \<in> set (columns df0) \<longrightarrow>
            H r0 ''Date of return'' = convR (r0 ''Date of return'')"
    by (simp add: H_R h2_def h1_other)
  have c8: "\<forall>r0. ''Date of Injury'' \<notin> set (columns df0)
              \<or> convI (r0 ''Date of Injury'') = PyNaT
            \<longrightarrow> H r0 ''Injury_Month'' = PyFloat NaN"
    using mnan by (simp only: H_M)
  have c9: "\<forall>r0. H r0 ''avg_rating_before'' =
            PyFloat (nanmean (map (\<lambda>c. float_of (H r0 c)) (filter has_before (rating_cols df0))))"
    using n3 by (simp add: H_def R3)
  have c10: "\<forall>r0. H r0 ''avg_rating_after'' =
            PyFloat (nanmean (map (\<lambda>c. float_of (H r0 c)) (filter has_after (rating_cols df0))))"
    using n4 by (simp add: H_def R3)
  have c11: "\<forall>r0. H r0 ''rating_change'' =
            PyFloat (fsub (float_of (H r0 ''avg_rating_after'')) (float_of (H r0 ''avg_rating_before'')))"
    using n5 by (simp add: H_def)
  have c12: "\<forall>r0. H r0 ''team_gd_before'' =
            PyFloat (nanmean (map (\<lambda>c. float_of (H r0 c)) (filter has_before (gd_cols df0))))"
    using n6 by (simp add: H_def G3)
  have c13: "\<forall>r0. H r0 ''team_gd_missed'' =
            PyFloat (nanmean (map (\<lambda>c. float_of (H r0 c)) (filter has_missed (gd_cols df0))))"
    using n7 by (simp add: H_def G3)
  have c14: "\<forall>r0. H r0 ''performance_drop_index'' =
            PyFloat (fsub (float_of (H r0 ''team_gd_before'')) (float_of (H r0 ''team_gd_missed'')))"
    using n8 by (simp add: H_def)
  show ?thesis
    by (intro exI[of _ df] exI[of _ H] conjI c1 c2 c3 c4 c5 c6 c7 c8 c9 c10 c11 c12 c13 c14)
qed

lemmas load_data_eval =
  load_data_def convert_date_def rename_columns_def rename_label_def rename_row_def
  add_injury_month_year_def assign_def add_column_def cell_def rating_cols_def gd_cols_def
  assign_mean_def assign_difference_def row_mean_def has_before_def has_after_def has_missed_def
  nanmean_def fsum_def fsub_def endswith_def dt_month_name_def dt_year_def is_datetime_def
  to_datetime_coerce_def coerce_def to_datetime_returns_def month_name_def

section \<open>The enrichment pipeline\<close>

lemma nanmean_all_nan: "filter (\<lambda>f. f \<noteq> NaN) fs = [] \<Longrightarrow> nanmean fs = NaN"
  by (simp add: nanmean_def)

lemma nanmean_values:
  "filter (\<lambda>f. f \<noteq> NaN) fs \<noteq> [] \<Longrightarrow>
   nanmean fs = fdiv_count (fsum (filter (\<lambda>f. f \<noteq> NaN) fs)) (length (filter (\<lambda>f. f \<noteq> NaN) fs))"
  by (simp add: nanmean_def Let_def)

lemma fsub_NaN: "fsub NaN y = NaN" "fsub x NaN = NaN"
  by (cases x; simp add: fsub_def)+

lemma fsub_example: "fsub (Fin 2) (Fin (- 1)) = Fin 3"
  by (simp add: fsub_def round64_eval)

text \<open>
  Claim C1. \<open>load_data\<close> does not return a table for every table that \<open>pd.read_csv\<close>
  can hand it. Lines 25 and 27 call \<open>pd.to_datetime\<close> outside any \<open>try\<close>, and
  \<open>errors="coerce"\<close> turns into \<open>NaT\<close> only the cells that cannot be read: when
  \<open>pd.to_datetime\<close> raises on the injury dates, or returns on them and raises on the
  return dates, that exception leaves \<open>load_data\<close> and no table is returned. pandas
  raises in this way on a column whose dates carry different UTC offsets; the
  instance below is a table with two such injury dates.
\<close>

theorem load_data_raises:
  assumes "(''Date of Injury'' \<in> set (columns df0)
              \<and> parse (map (\<lambda>r. r ''Date of Injury'') (rows df0)) = Inl e)
         \<or> (to_datetime_returns parse ''Date of Injury'' df0
              \<and> ''Date of return'' \<in> set (columns df0)
              \<and> parse (map (\<lambda>r. r ''Date of return'') (rows df0)) = Inl e)"
  shows "load_data repr parse df0 = Inl e"
proof -
  from assms consider
      (injury) "''Date of Injury'' \<in> set (columns df0)"
        "parse (map (\<lambda>r. r ''Date of Injury'') (rows df0)) = Inl e"
    | (return) "to_datetime_returns parse ''Date of Injury'' df0"
        "''Date of return'' \<in> set (columns df0)"
        "parse (map (\<lambda>r. r ''Date of return'') (rows df0)) = Inl e"
    by blast
  then show ?thesis
  proof cases
    case injury
    from convert_date_raises[where c = "''Date of Injury''" and df = df0 and parse = parse
        and e = e, OF injury]
    show ?thesis
      by (simp add: load_data_def)
  next
    case return
    from to_datetime_returns_coerce[OF return(1)] obtain conv where
      c: "''Date of Injury'' \<in> set (columns df0) \<longrightarrow>
            to_datetime_coerce parse (map (\<lambda>r'. r' ''Date of Injury'') (rows df0)) = Inr conv"
      by blast
    define h :: "row \<Rightarrow> row" where "h =
       (if ''Date of Injury'' \<in> set (columns df0)
        then (\<lambda>r. r(''Date of Injury'' := conv (r ''Date of Injury'')))
        else (\<lambda>r. r))"
    define df1 where "df1 = \<lparr>columns = columns df0, rows = map h (rows df0)\<rparr>"
    have s1: "convert_date parse ''Date of Injury'' df0 = Inr df1"
    proof (cases "''Date of Injury'' \<in> set (columns df0)")
      case True
      with c have "to_datetime_coerce parse (map (\<lambda>r'. r' ''Date of Injury'') (rows df0)) = Inr conv"
        by blast
      from convert_date_present[OF True this] True show ?thesis
        by (simp add: df1_def h_def)
    next
      case False
      then show ?thesis by (simp add: convert_date_absent df1_def h_def)
    qed
    have "\<And>r. h r ''Date of return'' = r ''Date of return''"
      by (simp add: h_def)
    then have col: "map (\<lambda>r'. r' ''Date of return'') (rows df1)
                  = map (\<lambda>r'. r' ''Date of return'') (rows df0)"
      by (simp add: df1_def)
    have m: "''Date of return'' \<in> set (columns df1)"
      using return(2) by (simp add: df1_def)
    have "parse (map (\<lambda>r'. r' ''Date of return'') (rows df1)) = Inl e"
      using return(3) by (simp only: col)
    from convert_date_raises[where c = "''Date of return''" and df = df1 and parse = parse
        and e = e, OF m this] s1
    show ?thesis
      by (simp add: load_data_def)
  qed
qed

theorem load_data_raises_witness:
  "load_data (\<lambda>q. '''')
     (\<lambda>col. if PyStr ''2021-03-01 10:00:00+01:00'' \<in> set col
                \<and> PyStr ''2021-06-01 10:00:00+02:00'' \<in> set col
             then Inl ValueError else Inr (\<lambda>v. None))
     \<lparr>columns = [''Name'', ''Date of Injury''],
      rows = [(\<lambda>c. PyFloat NaN)(''Name'' := PyStr ''A'',
                                  ''Date of Injury'' := PyStr ''2021-03-01 10:00:00+01:00''),
              (\<lambda>c. PyFloat NaN)(''Name'' := PyStr ''B'',
                                  ''Date of Injury'' := PyStr ''2021-06-01 10:00:00+02:00'')]\<rparr>
   = Inl ValueError"
  using load_data_raises[where repr = "\<lambda>q. ''''" and e = ValueError
      and parse = "\<lambda>col. if PyStr ''2021-03-01 10:00:00+01:00'' \<in> set col
                \<and> PyStr ''2021-06-01 10:00:00+02:00'' \<in> set col
             then Inl ValueError else Inr (\<lambda>v. None)"
      and ?df0.0 = "\<lparr>columns = [''Name'', ''Date of Injury''],
      rows = [(\<lambda>c. PyFloat NaN)(''Name'' := PyStr ''A'',
                                  ''Date of Injury'' := PyStr ''2021-03-01 10:00:00+01:00''),
              (\<lambda>c. PyFloat NaN)(''Name'' := PyStr ''B'',
                                  ''Date of Injury'' := PyStr ''2021-06-01 10:00:00+02:00'')]\<rparr>"]
  by simp

text \<open>
  Claim C5. Whenever \<open>pd.to_datetime\<close> returns on the date columns, \<open>load_data\<close>
  returns a table (no error is raised by the cleaning or by the means, whatever the
  columns and cells are). In that table the rating columns are the columns of the raw
  table whose label contains \<open>Player_rating\<close>; their cells are the cleaned values (a
  column cleaned once holds \<open>clean_numeric\<close> of the raw cell). For every record
  \<open>avg_rating_before\<close> is the \<open>skipna\<close> mean of its cells in the rating columns whose
  lower-cased label contains \<open>before\<close>: null when there is no such column or all those
  cells are null, and otherwise the binary64 sum of the non-null values divided, in
  binary64, by their number. The same holds for \<open>avg_rating_after\<close> and \<open>after\<close>.
\<close>

theorem avg_rating_is_mean:
  assumes "to_datetime_returns parse ''Date of Injury'' df0"
    and "to_datetime_returns parse ''Date of return'' df0"
  shows "\<exists>df. load_data repr parse df0 = Inr df
     \<and> length (rows df) = length (rows df0)
     \<and> rating_cols df = rating_cols df0
     \<and> (\<forall>i<length (rows df0).
          (\<forall>c \<in> set (rating_cols df0).
              (\<exists>f. ((rows df) ! i) c = PyFloat f)
            \<and> (count_list (rating_cols df0 @ gd_cols df0) c = 1 \<longrightarrow>
                 ((rows df) ! i) c = PyFloat (clean_numeric repr (((rows df0) ! i) c))))
        \<and> ((rows df) ! i) ''avg_rating_before'' =
             PyFloat (nanmean (map (\<lambda>c. float_of (((rows df) ! i) c)) (filter has_before (rating_cols df0))))
        \<and> (filter (\<lambda>f. f \<noteq> NaN)
               (map (\<lambda>c. float_of (((rows df) ! i) c)) (filter has_before (rating_cols df0))) = []
             \<longrightarrow> ((rows df) ! i) ''avg_rating_before'' = PyFloat NaN)
        \<and> (filter (\<lambda>f. f \<noteq> NaN)
               (map (\<lambda>c. float_of (((rows df) ! i) c)) (filter has_before (rating_cols df0))) \<noteq> []
             \<longrightarrow> ((rows df) ! i) ''avg_rating_before'' =
                   PyFloat (fdiv_count
                     (fsum (filter (\<lambda>f. f \<noteq> NaN)
                        (map (\<lambda>c. float_of (((rows df) ! i) c)) (filter has_before (rating_cols df0)))))
                     (length (filter (\<lambda>f. f \<noteq> NaN)
                        (map (\<lambda>c. float_of (((rows df) ! i) c)) (filter has_before (rating_cols df0)))))))
        \<and> ((rows df) ! i) ''avg_rating_after'' =
             PyFloat (nanmean (map (\<lambda>c. float_of (((rows df) ! i) c)) (filter has_after (rating_cols df0))))
        \<and> (filter (\<lambda>f. f \<noteq> NaN)
               (map (\<lambda>c. float_of (((rows df) ! i) c)) (filter has_after (rating_cols df0))) = []
             \<longrightarrow> ((rows df) ! i) ''avg_rating_after'' = PyFloat NaN)
        \<and> (filter (\<lambda>f. f \<noteq> NaN)
               (map (\<lambda>c. float_of (((rows df) ! i) c)) (filter has_after (rating_cols df0))) \<noteq> []
             \<longrightarrow> ((rows df) ! i) ''avg_rating_after'' =
                   PyFloat (fdiv_count
                     (fsum (filter (\<lambda>f. f \<noteq> NaN)
                        (map (\<lambda>c. float_of (((rows df) ! i) c)) (filter has_after (rating_cols df0)))))
                     (length (filter (\<lambda>f. f \<noteq> NaN)
                        (map (\<lambda>c. float_of (((rows df) ! i) c)) (filter has_after (rating_cols df0))))))))"
proof -
  from to_datetime_returns_coerce[OF assms(1)] obtain convI where
    aI: "''Date of Injury'' \<in> set (columns df0) \<longrightarrow>
      to_datetime_coerce parse (map (\<lambda>r'. r' ''Date of Injury'') (rows df0)) = Inr convI"
    by blast
  from to_datetime_returns_coerce[OF assms(2)] obtain convR where
    aR: "''Date of return'' \<in> set (columns df0) \<longrightarrow>
      to_datetime_coerce parse (map (\<lambda>r'. r' ''Date of return'') (rows df0)) = Inr convR"
    by blast
  from load_data_result[OF aI aR, of repr] obtain df H where
    ld: "load_data repr parse df0 = Inr df"
    and rws: "rows df = map H (rows df0)"
    and rc: "rating_cols df = rating_cols df0"
    and num: "\<forall>r0 c. c \<in> set (rating_cols df0 @ gd_cols df0) \<longrightarrow>
            H r0 c = clean_row repr (rating_cols df0 @ gd_cols df0) r0 c"
    and ab: "\<forall>r0. H r0 ''avg_rating_before'' =
            PyFloat (nanmean (map (\<lambda>c. float_of (H r0 c)) (filter has_before (rating_cols df0))))"
    and aa: "\<forall>r0. H r0 ''avg_rating_after'' =
            PyFloat (nanmean (map (\<lambda>c. float_of (H r0 c)) (filter has_after (rating_cols df0))))"
    by blast
  have cells: "(\<exists>f. H r0 c = PyFloat f)
            \<and> (count_list (rating_cols df0 @ gd_cols df0) c = 1 \<longrightarrow>
                 H r0 c = PyFloat (clean_numeric repr (r0 c)))"
    if "c \<in> set (rating_cols df0)" for r0 c
  proof -
    from that have c: "c \<in> set (rating_cols df0 @ gd_cols df0)" by simp
    with num have h: "H r0 c = clean_row repr (rating_cols df0 @ gd_cols df0) r0 c" by blast
    from clean_row_member[OF c, of repr r0] h have "\<exists>f. H r0 c = PyFloat f" by auto
    moreover have "count_list (rating_cols df0 @ gd_cols df0) c = 1 \<longrightarrow>
                 H r0 c = PyFloat (clean_numeric repr (r0 c))"
      using h clean_row_count1[of "rating_cols df0 @ gd_cols df0" c repr r0] by simp
    ultimately show ?thesis by blast
  qed
  have mean_cases:
    "(filter (\<lambda>f. f \<noteq> NaN) fs = [] \<longrightarrow> PyFloat (nanmean fs) = PyFloat NaN)
     \<and> (filter (\<lambda>f. f \<noteq> NaN) fs \<noteq> [] \<longrightarrow>
          PyFloat (nanmean fs) =
            PyFloat (fdiv_count (fsum (filter (\<lambda>f. f \<noteq> NaN) fs))
                       (length (filter (\<lambda>f. f \<noteq> NaN) fs))))" for fs
    using nanmean_all_nan[of fs] nanmean_values[of fs] by simp
  have "\<forall>i<length (rows df0).
          (\<forall>c \<in> set (rating_cols df0).
              (\<exists>f. ((rows df) ! i) c = PyFloat f)
            \<and> (count_list (rating_cols df0 @ gd_cols df0) c = 1 \<longrightarrow>
                 ((rows df) ! i) c = PyFloat (clean_numeric repr (((rows df0) ! i) c))))
        \<and> ((rows df) ! i) ''avg_rating_before'' =
             PyFloat (nanmean (map (\<lambda>c. float_of (((rows df) ! i) c)) (filter has_before (rating_cols df0))))
        \<and> (filter (\<lambda>f. f \<noteq> NaN)
               (map (\<lambda>c. float_of (((rows df) ! i) c)) (filter has_before (rating_cols df0))) = []
             \<longrightarrow> ((rows df) ! i) ''avg_rating_before'' = PyFloat NaN)
        \<and> (filter (\<lambda>f. f \<noteq> NaN)
               (map (\<lambda>c. float_of (((rows df) ! i) c)) (filter has_before (rating_cols df0))) \<noteq> []
             \<longrightarrow> ((rows df) ! i) ''avg_rating_before'' =
                   PyFloat (fdiv_count
                     (fsum (filter (\<lambda>f. f \<noteq> NaN)
                        (map (\<lambda>c. float_of (((rows df) ! i) c)) (filter has_before (rating_cols df0)))))
                     (length (filter (\<lambda>f. f \<noteq> NaN)
                        (map (\<lambda>c. float_of (((rows df) ! i) c)) (filter has_before (rating_cols df0)))))))
        \<and> ((rows df) ! i) ''avg_rating_after'' =
             PyFloat (nanmean (map (\<lambda>c. float_of (((rows df) ! i) c)) (filter has_after (rating_cols df0))))
        \<and> (filter (\<lambda>f. f \<noteq> NaN)
               (map (\<lambda>c. float_of (((rows df) ! i) c)) (filter has_after (rating_cols df0))) = []
             \<longrightarrow> ((rows df) ! i) ''avg_rating_after'' = PyFloat NaN)
        \<and> (filter (\<lambda>f. f \<noteq> NaN)
               (map (\<lambda>c. float_of (((rows df) ! i) c)) (filter has_after (rating_cols df0))) \<noteq> []
             \<longrightarrow> ((rows df) ! i) ''avg_rating_after'' =
                   PyFloat (fdiv_count
                     (fsum (filter (\<lambda>f. f \<noteq> NaN)
                        (map (\<lambda>c. float_of (((rows df) ! i) c)) (filter has_after (rating_cols df0)))))
                     (length (filter (\<lambda>f. f \<noteq> NaN)
                        (map (\<lambda>c. float_of (((rows df) ! i) c)) (filter has_after (rating_cols df0)))))))"
  proof (intro allI impI)
    fix i assume i: "i < length (rows df0)"
    have r: "(rows df) ! i = H ((rows df0) ! i)" using i by (simp add: rws)
    let ?r0 = "(rows df0) ! i"
    let ?B = "map (\<lambda>c. float_of (H ?r0 c)) (filter has_before (rating_cols df0))"
    let ?A = "map (\<lambda>c. float_of (H ?r0 c)) (filter has_after (rating_cols df0))"
    have b: "H ?r0 ''avg_rating_before'' = PyFloat (nanmean ?B)" using ab by blast
    have a: "H ?r0 ''avg_rating_after'' = PyFloat (nanmean ?A)" using aa by blast
    have c: "\<forall>c \<in> set (rating_cols df0).
              (\<exists>f. H ?r0 c = PyFloat f)
            \<and> (count_list (rating_cols df0 @ gd_cols df0) c = 1 \<longrightarrow>
                 H ?r0 c = PyFloat (clean_numeric repr (?r0 c)))"
      using cells by blast
    show "(\<forall>c \<in> set (rating_cols df0).
              (\<exists>f. ((rows df) ! i) c = PyFloat f)
            \<and> (count_list (rating_cols df0 @ gd_cols df0) c = 1 \<longrightarrow>
                 ((rows df) ! i) c = PyFloat (clean_numeric repr (((rows df0) ! i) c))))
        \<and> ((rows df) ! i) ''avg_rating_before'' =
             PyFloat (nanmean (map (\<lambda>c. float_of (((rows df) ! i) c)) (filter has_before (rating_cols df0))))
        \<and> (filter (\<lambda>f. f \<noteq> NaN)
               (map (\<lambda>c. float_of (((rows df) ! i) c)) (filter has_before (rating_cols df0))) = []
             \<longrightarrow> ((rows df) ! i) ''avg_rating_before'' = PyFloat NaN)
        \<and> (filter (\<lambda>f. f \<noteq> NaN)
               (map (\<lambda>c. float_of (((rows df) ! i) c)) (filter has_before (rating_cols df0))) \<noteq> []
             \<longrightarrow> ((rows df) ! i) ''avg_rating_before'' =
                   PyFloat (fdiv_count
                     (fsum (filter (\<lambda>f. f \<noteq> NaN)
                        (map (\<lambda>c. float_of (((rows df) ! i) c)) (filter has_before (rating_cols df0)))))
                     (length (filter (\<lambda>f. f \<noteq> NaN)
                        (map (\<lambda>c. float_of (((rows df) ! i) c)) (filter has_before (rating_cols df0)))))))
        \<and> ((rows df) ! i) ''avg_rating_after'' =
             PyFloat (nanmean (map (\<lambda>c. float_of (((rows df) ! i) c)) (filter has_after (rating_cols df0))))
        \<and> (filter (\<lambda>f. f \<noteq> NaN)
               (map (\<lambda>c. float_of (((rows df) ! i) c)) (filter has_after (rating_cols df0))) = []
             \<longrightarrow> ((rows df) ! i) ''avg_rating_after'' = PyFloat NaN)
        \<and> (filter (\<lambda>f. f \<noteq> NaN)
               (map (\<lambda>c. float_of (((rows df) ! i) c)) (filter has_after (rating_cols df0))) \<noteq> []
             \<longrightarrow> ((rows df) ! i) ''avg_rating_after'' =
                   PyFloat (fdiv_count
                     (fsum (filter (\<lambda>f. f \<noteq> NaN)
                        (map (\<lambda>c. float_of (((rows df) ! i) c)) (filter has_after (rating_cols df0)))))
                     (length (filter (\<lambda>f. f \<noteq> NaN)
                        (map (\<lambda>c. float_of (((rows df) ! i) c)) (filter has_after (rating_cols df0)))))))"
      unfolding r b a
      using c mean_cases[of ?B] mean_cases[of ?A] by blast
  qed
  moreover have "length (rows df) = length (rows df0)" by (simp add: rws)
  ultimately show ?thesis using ld rc by blast
qed

theorem avg_rating_is_mean_witness:
  "\<exists>df. load_data (\<lambda>q. '''') (\<lambda>col. Inr (\<lambda>v. None))
          \<lparr>columns = [''Match1_before_injury_Player_rating'', ''Match2_before_injury_Player_rating'',
                      ''Match3_before_injury_Player_rating'', ''Match1_after_injury_Player_rating''],
           rows = [(\<lambda>c. PyFloat NaN)(''Match1_before_injury_Player_rating'' := PyStr ''6'',
                                       ''Match2_before_injury_Player_rating'' := PyStr ''8 (S)'',
                                       ''Match3_before_injury_Player_rating'' := PyStr ''N.A.'',
                                       ''Match1_after_injury_Player_rating'' := PyStr ''-'')]\<rparr> = Inr df
     \<and> map (\<lambda>r. (r ''avg_rating_before'', r ''avg_rating_after'')) (rows df)
         = [(PyFloat (Fin 7), PyFloat NaN)]"
  using avg_rating_is_mean[of "\<lambda>col. Inr (\<lambda>v. None)"
          "\<lparr>columns = [''Match1_before_injury_Player_rating'', ''Match2_before_injury_Player_rating'',
                      ''Match3_before_injury_Player_rating'', ''Match1_after_injury_Player_rating''],
           rows = [(\<lambda>c. PyFloat NaN)(''Match1_before_injury_Player_rating'' := PyStr ''6'',
                                       ''Match2_before_injury_Player_rating'' := PyStr ''8 (S)'',
                                       ''Match3_before_injury_Player_rating'' := PyStr ''N.A.'',
                                       ''Match1_after_injury_Player_rating'' := PyStr ''-'')]\<rparr>"
          "\<lambda>q. ''''"]
  by (simp add: load_data_eval clean_eval)

text \<open>
  Claim C6. Whenever \<open>pd.to_datetime\<close> returns on the date columns, \<open>load_data\<close>
  returns a table, and for every record of it \<open>rating_change\<close> is
  \<open>avg_rating_after\<close> minus \<open>avg_rating_before\<close> and \<open>performance_drop_index\<close> is
  \<open>team_gd_before\<close> minus \<open>team_gd_missed\<close>, the subtraction being that of binary64;
  the four operands are floats; each difference is null when one of its operands is
  null; and with \<open>team_gd_before = 2.0\<close> and \<open>team_gd_missed = -1.0\<close> the performance
  drop index is 3.0.
\<close>

theorem derived_differences:
  assumes "to_datetime_returns parse ''Date of Injury'' df0"
    and "to_datetime_returns parse ''Date of return'' df0"
  shows "\<exists>df. load_data repr parse df0 = Inr df
     \<and> (\<forall>r \<in> set (rows df).
          r ''rating_change'' =
            PyFloat (fsub (float_of (r ''avg_rating_after'')) (float_of (r ''avg_rating_before'')))
        \<and> r ''performance_drop_index'' =
            PyFloat (fsub (float_of (r ''team_gd_before'')) (float_of (r ''team_gd_missed'')))
        \<and> (\<exists>xa xb ya yb. r ''avg_rating_after'' = PyFloat xa \<and> r ''avg_rating_before'' = PyFloat xb
              \<and> r ''team_gd_before'' = PyFloat ya \<and> r ''team_gd_missed'' = PyFloat yb)
        \<and> (isna (r ''avg_rating_after'') \<or> isna (r ''avg_rating_before'') \<longrightarrow> isna (r ''rating_change''))
        \<and> (isna (r ''team_gd_before'') \<or> isna (r ''team_gd_missed'') \<longrightarrow> isna (r ''performance_drop_index''))
        \<and> (r ''team_gd_before'' = PyFloat (Fin 2) \<and> r ''team_gd_missed'' = PyFloat (Fin (- 1))
              \<longrightarrow> r ''performance_drop_index'' = PyFloat (Fin 3)))"
proof -
  from to_datetime_returns_coerce[OF assms(1)] obtain convI where
    aI: "''Date of Injury'' \<in> set (columns df0) \<longrightarrow>
      to_datetime_coerce parse (map (\<lambda>r'. r' ''Date of Injury'') (rows df0)) = Inr convI"
    by blast
  from to_datetime_returns_coerce[OF assms(2)] obtain convR where
    aR: "''Date of return'' \<in> set (columns df0) \<longrightarrow>
      to_datetime_coerce parse (map (\<lambda>r'. r' ''Date of return'') (rows df0)) = Inr convR"
    by blast
  from load_data_result[OF aI aR, of repr] obtain df H where
    ld: "load_data repr parse df0 = Inr df"
    and rws: "rows df = map H (rows df0)"
    and ab: "\<forall>r0. H r0 ''avg_rating_before'' =
            PyFloat (nanmean (map (\<lambda>c. float_of (H r0 c)) (filter has_before (rating_cols df0))))"
    and aa: "\<forall>r0. H r0 ''avg_rating_after'' =
            PyFloat (nanmean (map (\<lambda>c. float_of (H r0 c)) (filter has_after (rating_cols df0))))"
    and rch: "\<forall>r0. H r0 ''rating_change'' =
            PyFloat (fsub (float_of (H r0 ''avg_rating_after'')) (float_of (H r0 ''avg_rating_before'')))"
    and gb: "\<forall>r0. H r0 ''team_gd_before'' =
            PyFloat (nanmean (map (\<lambda>c. float_of (H r0 c)) (filter has_before (gd_cols df0))))"
    and gm: "\<forall>r0. H r0 ''team_gd_missed'' =
            PyFloat (nanmean (map (\<lambda>c. float_of (H r0 c)) (filter has_missed (gd_cols df0))))"
    and pdi: "\<forall>r0. H r0 ''performance_drop_index'' =
            PyFloat (fsub (float_of (H r0 ''team_gd_before'')) (float_of (H r0 ''team_gd_missed'')))"
    by blast
  have "\<forall>r \<in> set (rows df).
          r ''rating_change'' =
            PyFloat (fsub (float_of (r ''avg_rating_after'')) (float_of (r ''avg_rating_before'')))
        \<and> r ''performance_drop_index'' =
            PyFloat (fsub (float_of (r ''team_gd_before'')) (float_of (r ''team_gd_missed'')))
        \<and> (\<exists>xa xb ya yb. r ''avg_rating_after'' = PyFloat xa \<and> r ''avg_rating_before'' = PyFloat xb
              \<and> r ''team_gd_before'' = PyFloat ya \<and> r ''team_gd_missed'' = PyFloat yb)
        \<and> (isna (r ''avg_rating_after'') \<or> isna (r ''avg_rating_before'') \<longrightarrow> isna (r ''rating_change''))
        \<and> (isna (r ''team_gd_before'') \<or> isna (r ''team_gd_missed'') \<longrightarrow> isna (r ''performance_drop_index''))
        \<and> (r ''team_gd_before'' = PyFloat (Fin 2) \<and> r ''team_gd_missed'' = PyFloat (Fin (- 1))
              \<longrightarrow> r ''performance_drop_index'' = PyFloat (Fin 3))"
  proof
    fix r assume "r \<in> set (rows df)"
    then obtain r0 where r: "r = H r0" by (auto simp add: rws)
    obtain xa xb ya yb where
      f: "r ''avg_rating_after'' = PyFloat xa" "r ''avg_rating_before'' = PyFloat xb"
         "r ''team_gd_before'' = PyFloat ya" "r ''team_gd_missed'' = PyFloat yb"
      using aa ab gb gm unfolding r by blast
    have d1: "r ''rating_change'' = PyFloat (fsub xa xb)"
      using rch f(1,2) unfolding r by simp
    have d2: "r ''performance_drop_index'' = PyFloat (fsub ya yb)"
      using pdi f(3,4) unfolding r by simp
    show "r ''rating_change'' =
            PyFloat (fsub (float_of (r ''avg_rating_after'')) (float_of (r ''avg_rating_before'')))
        \<and> r ''performance_drop_index'' =
            PyFloat (fsub (float_of (r ''team_gd_before'')) (float_of (r ''team_gd_missed'')))
        \<and> (\<exists>xa xb ya yb. r ''avg_rating_after'' = PyFloat xa \<and> r ''avg_rating_before'' = PyFloat xb
              \<and> r ''team_gd_before'' = PyFloat ya \<and> r ''team_gd_missed'' = PyFloat yb)
        \<and> (isna (r ''avg_rating_after'') \<or> isna (r ''avg_rating_before'') \<longrightarrow> isna (r ''rating_change''))
        \<and> (isna (r ''team_gd_before'') \<or> isna (r ''team_gd_missed'') \<longrightarrow> isna (r ''performance_drop_index''))
        \<and> (r ''team_gd_before'' = PyFloat (Fin 2) \<and> r ''team_gd_missed'' = PyFloat (Fin (- 1))
              \<longrightarrow> r ''performance_drop_index'' = PyFloat (Fin 3))"
      unfolding d1 d2 f
      by (auto simp add: isna_def fsub_NaN fsub_example)
  qed
  with ld show ?thesis by blast
qed

theorem derived_differences_witness:
  "\<exists>df. load_data (\<lambda>q. '''') (\<lambda>col. Inr (\<lambda>v. None))
          \<lparr>columns = [''Date of Injury'', ''Match1_before_injury_GD'', ''Match1_missed_match_GD''],
           rows = [(\<lambda>c. PyFloat NaN)(''Date of Injury'' := PyStr ''Mar 3, 2021'',
                                       ''Match1_before_injury_GD'' := PyStr ''2'',
                                       ''Match1_missed_match_GD'' := PyStr ''-1'')]\<rparr> = Inr df
     \<and> map (\<lambda>r. (r ''team_gd_before'', r ''team_gd_missed'', r ''performance_drop_index'',
                   r ''avg_rating_after'', r ''rating_change'')) (rows df)
         = [(PyFloat (Fin 2), PyFloat (Fin (- 1)), PyFloat (Fin 3), PyFloat NaN, PyFloat NaN)]"
  using derived_differences[of "\<lambda>col. Inr (\<lambda>v. None)"
          "\<lparr>columns = [''Date of Injury'', ''Match1_before_injury_GD'', ''Match1_missed_match_GD''],
           rows = [(\<lambda>c. PyFloat NaN)(''Date of Injury'' := PyStr ''Mar 3, 2021'',
                                       ''Match1_before_injury_GD'' := PyStr ''2'',
                                       ''Match1_missed_match_GD'' := PyStr ''-1'')]\<rparr>"
          "\<lambda>q. ''''"]
  by (simp add: load_data_eval clean_eval)

section \<open>The filters\<close>

text \<open>
  Claim C7. The filtered subset is the table with exactly the records that satisfy, for
  each of the three dimensions, "the value is in the selection", where a dimension whose
  selection is empty or whose column the table does not have imposes nothing; the
  filters never raise. With nothing selected the whole table is returned, and with a
  team selection alone exactly the records whose team is selected.
\<close>

theorem filtered_is_conjunction:
  "filtered df ss ts ps =
     Inr \<lparr>columns = columns df,
          rows = filter (\<lambda>r. (''Season'' \<in> set (columns df) \<and> ss \<noteq> [] \<longrightarrow> r ''Season'' \<in> set ss)
                           \<and> (''Team'' \<in> set (columns df) \<and> ts \<noteq> [] \<longrightarrow> r ''Team'' \<in> set ts)
                           \<and> (''Player_Name'' \<in> set (columns df) \<and> ps \<noteq> [] \<longrightarrow> r ''Player_Name'' \<in> set ps))
                   (rows df)\<rparr>
   \<and> filtered df [] [] [] = Inr df
   \<and> (''Team'' \<in> set (columns df) \<and> ts \<noteq> [] \<longrightarrow>
        filtered df [] ts [] =
          Inr \<lparr>columns = columns df, rows = filter (\<lambda>r. r ''Team'' \<in> set ts) (rows df)\<rparr>)"
proof (intro conjI impI)
  show "filtered df ss ts ps =
     Inr \<lparr>columns = columns df,
          rows = filter (\<lambda>r. (''Season'' \<in> set (columns df) \<and> ss \<noteq> [] \<longrightarrow> r ''Season'' \<in> set ss)
                           \<and> (''Team'' \<in> set (columns df) \<and> ts \<noteq> [] \<longrightarrow> r ''Team'' \<in> set ts)
                           \<and> (''Player_Name'' \<in> set (columns df) \<and> ps \<noteq> [] \<longrightarrow> r ''Player_Name'' \<in> set ps))
                   (rows df)\<rparr>"
    by (cases "''Season'' \<in> set (columns df) \<and> ss \<noteq> []";
        cases "''Team'' \<in> set (columns df) \<and> ts \<noteq> []";
        cases "''Player_Name'' \<in> set (columns df) \<and> ps \<noteq> []")
       (auto simp add: filtered_def sidebar_filters_def apply_filters_def isin_filter_def
          intro!: filter_cong)
next
  show "filtered df [] [] [] = Inr df"
    by (simp add: filtered_def sidebar_filters_def apply_filters_def)
next
  assume "''Team'' \<in> set (columns df) \<and> ts \<noteq> []"
  then show "filtered df [] ts [] =
          Inr \<lparr>columns = columns df, rows = filter (\<lambda>r. r ''Team'' \<in> set ts) (rows df)\<rparr>"
    by (simp add: filtered_def sidebar_filters_def apply_filters_def isin_filter_def)
qed

theorem filtered_is_conjunction_witness:
  "(case filtered
      \<lparr>columns = [''Team''],
       rows = [(\<lambda>c. PyFloat NaN)(''Team'' := PyStr ''A''), (\<lambda>c. PyFloat NaN)(''Team'' := PyStr ''B''),
               (\<lambda>c. PyFloat NaN)]\<rparr>
      [PyStr ''2020''] [PyStr ''B''] []
    of Inr f \<Rightarrow> map (\<lambda>r. r ''Team'') (rows f) | Inl e \<Rightarrow> []) = [PyStr ''B'']"
  using filtered_is_conjunction[of
      "\<lparr>columns = [''Team''],
       rows = [(\<lambda>c. PyFloat NaN)(''Team'' := PyStr ''A''), (\<lambda>c. PyFloat NaN)(''Team'' := PyStr ''B''),
               (\<lambda>c. PyFloat NaN)]\<rparr>" "[PyStr ''2020'']" "[PyStr ''B'']" "[]"]
  by simp

section \<open>The ranking\<close>

text \<open>
  Claim C2 fails: with one record whose performance drop index is 3.0 and one whose
  index is null, the ranking holds both records, the null one last.
\<close>

theorem top_drops_keeps_null:
  "map_option (map (\<lambda>r. r ''performance_drop_index''))
     (top_drops \<lparr>columns = [''performance_drop_index''],
                 rows = [(\<lambda>c. PyFloat NaN),
                         (\<lambda>c. PyFloat NaN)(''performance_drop_index'' := PyFloat (Fin 3))]\<rparr>)
   = Some [PyFloat (Fin 3), PyFloat NaN]"
  by (simp add: top_drops_def sort_values_desc_def isna_def float_of_def)

section \<open>Properties of grouping and sorting\<close>

lemma groupby_keys:
  "map fst (groupby a b rs) =
     sort_key pair_key (remdups (map (\<lambda>r. (r a, r b))
       (filter (\<lambda>r. \<not> isna (r a) \<and> \<not> isna (r b)) rs)))"
  by (simp add: groupby_def Let_def comp_def)

lemma groupby_distinct: "distinct (map fst (groupby a b rs))"
  by (simp add: groupby_keys)

lemma groupby_key_set:
  "set (map fst (groupby a b rs)) =
     {(r a, r b) | r. r \<in> set rs \<and> \<not> isna (r a) \<and> \<not> isna (r b)}"
  by (auto simp add: groupby_keys)

lemma groupby_member:
  assumes "g \<in> set (groupby a b rs)"
  shows "\<not> isna (fst (fst g)) \<and> \<not> isna (snd (fst g))
       \<and> snd g = filter (\<lambda>r. r a = fst (fst g) \<and> r b = snd (fst g)) rs
       \<and> snd g \<noteq> []"
proof -
  let ?keyed = "filter (\<lambda>r. \<not> isna (r a) \<and> \<not> isna (r b)) rs"
  from assms obtain k where k: "k \<in> set (map (\<lambda>r. (r a, r b)) ?keyed)"
    and g: "g = (k, filter (\<lambda>r. (r a, r b) = k) ?keyed)"
    by (auto simp add: groupby_def Let_def)
  from k obtain r where r: "r \<in> set rs" "\<not> isna (r a)" "\<not> isna (r b)" "k = (r a, r b)"
    by auto
  have nn: "\<not> isna (fst k) \<and> \<not> isna (snd k)" using r by simp
  have eq: "filter (\<lambda>r. (r a, r b) = k) ?keyed = filter (\<lambda>r. r a = fst k \<and> r b = snd k) rs"
    using nn by (cases k) (auto intro!: filter_cong)
  have "r \<in> set (filter (\<lambda>r. r a = fst k \<and> r b = snd k) rs)"
    using r by simp
  then have ne: "filter (\<lambda>r. r a = fst k \<and> r b = snd k) rs \<noteq> []"
    by (metis empty_iff list.set(1))
  have "fst g = k" "snd g = filter (\<lambda>r. r a = fst k \<and> r b = snd k) rs"
    using g eq by simp_all
  with nn ne show ?thesis by simp
qed

lemma groupby_drop_null:
  "groupby a b (filter (\<lambda>r. \<not> isna (r a) \<and> \<not> isna (r b)) rs) = groupby a b rs"
  by (simp add: groupby_def)

lemma groupby_drop_null_right:
  "groupby a b (filter (\<lambda>r. \<not> isna (r b)) rs) = groupby a b rs"
proof -
  have "filter (\<lambda>r. \<not> isna (r a) \<and> \<not> isna (r b)) (filter (\<lambda>r. \<not> isna (r b)) rs)
        = filter (\<lambda>r. \<not> isna (r a) \<and> \<not> isna (r b)) rs"
    by (auto intro!: filter_cong)
  then show ?thesis by (simp only: groupby_def)
qed

lemma map_of_keyed:
  "map_of (map (\<lambda>g. (fst g, f g)) gs) k =
     (case find (\<lambda>g. fst g = k) gs of None \<Rightarrow> None | Some g \<Rightarrow> Some (f g))"
  by (induction gs) auto

lemma groupby_size_lookup:
  assumes "\<not> isna t" and "\<not> isna m"
  shows "(case map_of (groupby_size a b rs) (t, m) of None \<Rightarrow> 0 | Some n \<Rightarrow> n)
           = length (filter (\<lambda>r. r a = t \<and> r b = m) rs)"
proof (cases "find (\<lambda>g. fst g = (t, m)) (groupby a b rs)")
  case None
  then have "(t, m) \<notin> set (map fst (groupby a b rs))"
    by (auto simp add: find_None_iff)
  then have "\<forall>r \<in> set rs. \<not> (r a = t \<and> r b = m)"
    using assms unfolding groupby_key_set by auto
  then have "filter (\<lambda>r. r a = t \<and> r b = m) rs = []"
    by (simp add: filter_empty_conv)
  with None show ?thesis
    by (simp add: groupby_size_def map_of_keyed)
next
  case (Some g)
  then have g: "g \<in> set (groupby a b rs)" "fst g = (t, m)"
    by (auto simp add: find_Some_iff)
  from groupby_member[OF g(1)] g(2)
  have "snd g = filter (\<lambda>r. r a = t \<and> r b = m) rs" by simp
  with Some show ?thesis
    by (simp add: groupby_size_def map_of_keyed)
qed

lemma isna_PyStr [simp]: "\<not> isna (PyStr s)"
  by (simp add: isna_def)

lemma groupby_size_keys: "map fst (groupby_size a b rs) = map fst (groupby a b rs)"
  by (simp add: groupby_size_def comp_def)

lemma groupby_size_Nil: "groupby_size a b rs = [] \<longleftrightarrow> groupby a b rs = []"
  by (simp add: groupby_size_def)

lemma groupby_Nil:
  "groupby a b rs = [] \<longleftrightarrow> \<not> (\<exists>r \<in> set rs. \<not> isna (r a) \<and> \<not> isna (r b))"
proof -
  have "groupby a b rs = [] \<longleftrightarrow> set (map fst (groupby a b rs)) = {}"
    by simp
  also have "\<dots> \<longleftrightarrow> \<not> (\<exists>r \<in> set rs. \<not> isna (r a) \<and> \<not> isna (r b))"
    unfolding groupby_key_set by auto
  finally show ?thesis .
qed

lemma heat_pivot_Some:
  assumes "heat_pivot df = Some g"
  shows "g = reindex_months (fillna0 (pivot (groupby_size ''Team'' ''Injury_Month'' (rows df))))"
  using assms by (simp add: heat_pivot_def Let_def split: if_splits)

lemma heat_pivot_index:
  assumes "heat_pivot df = Some g"
  shows "distinct (pt_index g)"
    and "set (pt_index g) =
           {r ''Team'' | r. r \<in> set (rows df) \<and> \<not> isna (r ''Team'') \<and> \<not> isna (r ''Injury_Month'')}"
proof -
  let ?gs = "groupby_size ''Team'' ''Injury_Month'' (rows df)"
  have idx: "pt_index g = sort_key pyval_key (remdups (map (\<lambda>e. fst (fst e)) ?gs))"
    unfolding heat_pivot_Some[OF assms] by (simp add: reindex_months_def fillna0_def pivot_def)
  show "distinct (pt_index g)" by (simp add: idx)
  have "set (map (\<lambda>e. fst (fst e)) ?gs) = fst ` set (map fst ?gs)"
    by (simp add: image_image)
  also have "\<dots> = fst ` {(r ''Team'', r ''Injury_Month'') | r.
                 r \<in> set (rows df) \<and> \<not> isna (r ''Team'') \<and> \<not> isna (r ''Injury_Month'')}"
    by (simp only: groupby_size_keys groupby_key_set)
  also have "\<dots> = {r ''Team'' | r. r \<in> set (rows df) \<and> \<not> isna (r ''Team'') \<and> \<not> isna (r ''Injury_Month'')}"
    by force
  finally show "set (pt_index g) =
           {r ''Team'' | r. r \<in> set (rows df) \<and> \<not> isna (r ''Team'') \<and> \<not> isna (r ''Injury_Month'')}"
    by (simp add: idx)
qed

lemma heat_pivot_columns:
  assumes "heat_pivot df = Some g"
  shows "pt_columns g =
           map PyStr (filter (\<lambda>m. \<exists>r \<in> set (rows df). \<not> isna (r ''Team'') \<and> r ''Injury_Month'' = PyStr m)
                        month_order)"
proof -
  let ?gs = "groupby_size ''Team'' ''Injury_Month'' (rows df)"
  have cols: "pt_columns g =
      map PyStr (filter (\<lambda>m. PyStr m \<in> set (sort_key pyval_key (remdups (map (\<lambda>e. snd (fst e)) ?gs))))
                   month_order)"
    unfolding heat_pivot_Some[OF assms] by (simp add: reindex_months_def fillna0_def pivot_def)
  have "set (map (\<lambda>e. snd (fst e)) ?gs) = snd ` set (map fst ?gs)"
    by (simp add: image_image)
  also have "\<dots> = snd ` {(r ''Team'', r ''Injury_Month'') | r.
                 r \<in> set (rows df) \<and> \<not> isna (r ''Team'') \<and> \<not> isna (r ''Injury_Month'')}"
    by (simp only: groupby_size_keys groupby_key_set)
  also have "\<dots> = {r ''Injury_Month'' | r. r \<in> set (rows df) \<and> \<not> isna (r ''Team'') \<and> \<not> isna (r ''Injury_Month'')}"
    by force
  finally have s: "set (map (\<lambda>e. snd (fst e)) ?gs) =
      {r ''Injury_Month'' | r. r \<in> set (rows df) \<and> \<not> isna (r ''Team'') \<and> \<not> isna (r ''Injury_Month'')}" .
  have "\<And>m. PyStr m \<in> set (sort_key pyval_key (remdups (map (\<lambda>e. snd (fst e)) ?gs)))
          \<longleftrightarrow> (\<exists>r \<in> set (rows df). \<not> isna (r ''Team'') \<and> r ''Injury_Month'' = PyStr m)"
  proof -
    fix m
    have "PyStr m \<in> set (sort_key pyval_key (remdups (map (\<lambda>e. snd (fst e)) ?gs)))
          \<longleftrightarrow> PyStr m \<in> set (map (\<lambda>e. snd (fst e)) ?gs)"
      by simp
    also have "\<dots> \<longleftrightarrow> (\<exists>r \<in> set (rows df). \<not> isna (r ''Team'') \<and> r ''Injury_Month'' = PyStr m)"
      unfolding s by (auto; metis isna_PyStr)
    finally show "PyStr m \<in> set (sort_key pyval_key (remdups (map (\<lambda>e. snd (fst e)) ?gs)))
          \<longleftrightarrow> (\<exists>r \<in> set (rows df). \<not> isna (r ''Team'') \<and> r ''Injury_Month'' = PyStr m)" .
  qed
  then show ?thesis unfolding cols by simp
qed

lemma heat_pivot_cell:
  assumes "heat_pivot df = Some g" and "\<not> isna t" and "\<not> isna m"
  shows "pt_cell g t m = length (filter (\<lambda>r. r ''Team'' = t \<and> r ''Injury_Month'' = m) (rows df))"
  unfolding heat_pivot_Some[OF assms(1)]
  using groupby_size_lookup[OF assms(2,3), of "''Team''" "''Injury_Month''" "rows df"]
  by (simp add: reindex_months_def fillna0_def pivot_def)

lemmas heat_pivot_eval =
  heat_pivot_def groupby_size_def groupby_def isna_def pair_key_def pivot_def fillna0_def
  reindex_months_def month_order_def

section \<open>The frequency grid\<close>

text \<open>
  Claim C8, amended. The grid is shown exactly when the table has the team and the
  month column and some record has both values. Its columns are only the months that
  occur in such records, in calendar order (not all twelve months); its rows are the
  teams of such records, each once; and the entry of a team and a month of the grid is
  the number of filtered records with that team and that month, which is zero for a
  combination without records. Records with a null
  injury month change nothing in the grid (they stay in the table, which the grid does
  not alter). For the records (TeamA, March), (TeamA, March), (TeamB, January) the
  grid has the columns January, March and the rows TeamA: 0, 2 and TeamB: 1, 0.
\<close>

theorem heat_pivot_counts:
  "(heat_pivot df \<noteq> None \<longleftrightarrow>
       ''Team'' \<in> set (columns df) \<and> ''Injury_Month'' \<in> set (columns df)
       \<and> (\<exists>r \<in> set (rows df). \<not> isna (r ''Team'') \<and> \<not> isna (r ''Injury_Month'')))
   \<and> (\<forall>g. heat_pivot df = Some g \<longrightarrow>
         pt_columns g =
           map PyStr (filter (\<lambda>m. \<exists>r \<in> set (rows df). \<not> isna (r ''Team'') \<and> r ''Injury_Month'' = PyStr m)
                        month_order)
       \<and> distinct (pt_index g)
       \<and> set (pt_index g) =
           {r ''Team'' | r. r \<in> set (rows df) \<and> \<not> isna (r ''Team'') \<and> \<not> isna (r ''Injury_Month'')}
       \<and> (\<forall>t \<in> set (pt_index g). \<forall>m \<in> set (pt_columns g).
             pt_cell g t m =
               length (filter (\<lambda>r. r ''Team'' = t \<and> r ''Injury_Month'' = m) (rows df))))
   \<and> heat_pivot \<lparr>columns = columns df,
                  rows = filter (\<lambda>r. \<not> isna (r ''Injury_Month'')) (rows df)\<rparr> = heat_pivot df
   \<and> (case heat_pivot
              \<lparr>columns = [''Team'', ''Injury_Month''],
               rows = [(\<lambda>c. PyFloat NaN)(''Team'' := PyStr ''TeamA'', ''Injury_Month'' := PyStr ''March''),
                       (\<lambda>c. PyFloat NaN)(''Team'' := PyStr ''TeamA'', ''Injury_Month'' := PyStr ''March''),
                       (\<lambda>c. PyFloat NaN)(''Team'' := PyStr ''TeamB'', ''Injury_Month'' := PyStr ''January'')]\<rparr>
       of Some g \<Rightarrow> (pt_index g, pt_columns g, map (\<lambda>t. map (pt_cell g t) (pt_columns g)) (pt_index g))
        | None \<Rightarrow> ([], [], []))
      = ([PyStr ''TeamA'', PyStr ''TeamB''], [PyStr ''January'', PyStr ''March''], [[0, 2], [1, 0]])"
proof (intro conjI allI impI)
  show "heat_pivot df \<noteq> None \<longleftrightarrow>
       ''Team'' \<in> set (columns df) \<and> ''Injury_Month'' \<in> set (columns df)
       \<and> (\<exists>r \<in> set (rows df). \<not> isna (r ''Team'') \<and> \<not> isna (r ''Injury_Month''))"
    by (auto simp add: heat_pivot_def Let_def groupby_size_Nil groupby_Nil)
next
  fix g assume g: "heat_pivot df = Some g"
  show "pt_columns g =
           map PyStr (filter (\<lambda>m. \<exists>r \<in> set (rows df). \<not> isna (r ''Team'') \<and> r ''Injury_Month'' = PyStr m)
                        month_order)"
    using g by (rule heat_pivot_columns)
  show "distinct (pt_index g)"
    using g by (rule heat_pivot_index(1))
  show idx: "set (pt_index g) =
           {r ''Team'' | r. r \<in> set (rows df) \<and> \<not> isna (r ''Team'') \<and> \<not> isna (r ''Injury_Month'')}"
    using g by (rule heat_pivot_index(2))
  show "\<forall>t \<in> set (pt_index g). \<forall>m \<in> set (pt_columns g).
             pt_cell g t m =
               length (filter (\<lambda>r. r ''Team'' = t \<and> r ''Injury_Month'' = m) (rows df))"
  proof (intro ballI)
    fix t m assume t: "t \<in> set (pt_index g)" and m: "m \<in> set (pt_columns g)"
    from t have "\<not> isna t" unfolding idx by auto
    moreover from m have "\<not> isna m" unfolding heat_pivot_columns[OF g] by auto
    ultimately show "pt_cell g t m =
               length (filter (\<lambda>r. r ''Team'' = t \<and> r ''Injury_Month'' = m) (rows df))"
      using g by (intro heat_pivot_cell)
  qed
next
  show "heat_pivot \<lparr>columns = columns df,
                  rows = filter (\<lambda>r. \<not> isna (r ''Injury_Month'')) (rows df)\<rparr> = heat_pivot df"
    by (simp add: heat_pivot_def groupby_size_def groupby_drop_null_right)
next
  show "(case heat_pivot
              \<lparr>columns = [''Team'', ''Injury_Month''],
               rows = [(\<lambda>c. PyFloat NaN)(''Team'' := PyStr ''TeamA'', ''Injury_Month'' := PyStr ''March''),
                       (\<lambda>c. PyFloat NaN)(''Team'' := PyStr ''TeamA'', ''Injury_Month'' := PyStr ''March''),
                       (\<lambda>c. PyFloat NaN)(''Team'' := PyStr ''TeamB'', ''Injury_Month'' := PyStr ''January'')]\<rparr>
       of Some g \<Rightarrow> (pt_index g, pt_columns g, map (\<lambda>t. map (pt_cell g t) (pt_columns g)) (pt_index g))
        | None \<Rightarrow> ([], [], []))
      = ([PyStr ''TeamA'', PyStr ''TeamB''], [PyStr ''January'', PyStr ''March''], [[0, 2], [1, 0]])"
    by (simp add: heat_pivot_eval)
qed

theorem heat_pivot_counts_witness:
  "(case heat_pivot
              \<lparr>columns = [''Team'', ''Injury_Month''],
               rows = [(\<lambda>c. PyFloat NaN)(''Team'' := PyStr ''TeamB''),
                       (\<lambda>c. PyFloat NaN)(''Team'' := PyStr ''TeamB'', ''Injury_Month'' := PyStr ''March''),
                       (\<lambda>c. PyFloat NaN)(''Team'' := PyStr ''TeamA'', ''Injury_Month'' := PyStr ''January'')]\<rparr>
       of Some g \<Rightarrow> (pt_index g, pt_columns g, map (\<lambda>t. map (pt_cell g t) (pt_columns g)) (pt_index g))
        | None \<Rightarrow> ([], [], []))
      = ([PyStr ''TeamA'', PyStr ''TeamB''], [PyStr ''January'', PyStr ''March''], [[1, 0], [0, 1]])"
  using heat_pivot_counts[of
          "\<lparr>columns = [''Team'', ''Injury_Month''],
               rows = [(\<lambda>c. PyFloat NaN)(''Team'' := PyStr ''TeamB''),
                       (\<lambda>c. PyFloat NaN)(''Team'' := PyStr ''TeamB'', ''Injury_Month'' := PyStr ''March''),
                       (\<lambda>c. PyFloat NaN)(''Team'' := PyStr ''TeamA'', ''Injury_Month'' := PyStr ''January'')]\<rparr>"]
  by (simp add: heat_pivot_eval)

text \<open>
  Claim C8 as stated fails on its own example. For the records (TeamA, March),
  (TeamA, March), (TeamB, January) the grid has the two columns January and March
  only: line 318 keeps the months that are columns of the pivoted counts, so there is
  no column for February or for any other month without a record, the combination
  (TeamA, February) is no entry of the grid, and the columns are not the twelve months
  January through December.
\<close>

theorem heat_pivot_absent_month:
  "map_option pt_columns
     (heat_pivot
        \<lparr>columns = [''Team'', ''Injury_Month''],
         rows = [(\<lambda>c. PyFloat NaN)(''Team'' := PyStr ''TeamA'', ''Injury_Month'' := PyStr ''March''),
                 (\<lambda>c. PyFloat NaN)(''Team'' := PyStr ''TeamA'', ''Injury_Month'' := PyStr ''March''),
                 (\<lambda>c. PyFloat NaN)(''Team'' := PyStr ''TeamB'', ''Injury_Month'' := PyStr ''January'')]\<rparr>)
     = Some [PyStr ''January'', PyStr ''March'']
   \<and> map_option pt_columns
     (heat_pivot
        \<lparr>columns = [''Team'', ''Injury_Month''],
         rows = [(\<lambda>c. PyFloat NaN)(''Team'' := PyStr ''TeamA'', ''Injury_Month'' := PyStr ''March''),
                 (\<lambda>c. PyFloat NaN)(''Team'' := PyStr ''TeamA'', ''Injury_Month'' := PyStr ''March''),
                 (\<lambda>c. PyFloat NaN)(''Team'' := PyStr ''TeamB'', ''Injury_Month'' := PyStr ''January'')]\<rparr>)
     \<noteq> Some (map PyStr month_order)"
  by (simp add: heat_pivot_eval)

end
